theory Spec2Isabelle
  imports Complex_Main
begin

section \<open>Exceptions and Python primitives\<close>

text \<open>
  The exceptions of \<^verbatim>\<open>stock_categories.py\<close> (ParseError, TickerNotFoundError,
  CategoryNotFoundError) and the built-in exceptions the two modules can raise. A function
  that may raise returns \<open>error + 'a\<close>, with \<open>Inl\<close> for the exception.
\<close>

datatype error =
    ParseError
  | TickerNotFoundError
  | CategoryNotFoundError
  | TypeError
  | ValueError
  | IndexError
  | KeyError
  | ZeroDivisionError
  | UnboundLocalError

text \<open>
  Python floats are modelled as reals: rounding, infinities and NaN are not represented.
  The built-in \<^verbatim>\<open>float(s)\<close> on a string is a parameter \<open>pyfloat\<close> of every
  function that calls it; it returns the exception it raises (for a string that is not a
  number, Python raises ValueError) or the number.
\<close>

type_synonym pyfloat = "string \<Rightarrow> error + real"

text \<open>\<^verbatim>\<open>xs[i]\<close> for a non-negative index: IndexError out of range.\<close>

definition index :: "'a list \<Rightarrow> nat \<Rightarrow> error + 'a" where
  "index xs i = (if i < length xs then Inr (xs ! i) else Inl IndexError)"

text \<open>
  A dict keeps its keys in insertion order; \<^verbatim>\<open>d[k] = v\<close> replaces the value of a
  key that is present, in place, and appends a new key at the end.
\<close>

fun dict_set :: "'k \<Rightarrow> 'v \<Rightarrow> ('k \<times> 'v) list \<Rightarrow> ('k \<times> 'v) list" where
  "dict_set k v [] = [(k, v)]"
| "dict_set k v ((k', v') # d) = (if k = k' then (k, v) # d else (k', v') # dict_set k v d)"

text \<open>\<^verbatim>\<open>d[k]\<close>: KeyError for a missing key.\<close>

definition dict_get :: "('k \<times> 'v) list \<Rightarrow> 'k \<Rightarrow> error + 'v" where
  "dict_get d k = (case map_of d k of None \<Rightarrow> Inl KeyError | Some v \<Rightarrow> Inr v)"

text \<open>
  The decimal fragment of \<^verbatim>\<open>float\<close> used in the examples: digits with an optional
  fraction (\<^verbatim>\<open>"50"\<close>, \<^verbatim>\<open>"12.5"\<close>, \<^verbatim>\<open>"5."\<close>, \<^verbatim>\<open>".5"\<close>); every other
  string is rejected with ValueError, as Python rejects a string that is not a number.
\<close>

definition digit :: "char \<Rightarrow> nat option" where
  "digit c = (let n = (of_char c :: nat) in if 48 \<le> n \<and> n \<le> 57 then Some (n - 48) else None)"

fun digits :: "string \<Rightarrow> nat \<Rightarrow> nat option" where
  "digits [] acc = Some acc"
| "digits (c # cs) acc = (case digit c of None \<Rightarrow> None | Some d \<Rightarrow> digits cs (10 * acc + d))"

definition float_decimal :: pyfloat where
  "float_decimal s =
     (let ip = takeWhile (\<lambda>c. c \<noteq> CHR ''.'') s;
          fp = drop (Suc (length ip)) s
      in if ip = [] \<and> fp = [] then Inl ValueError
         else case (digits ip 0, digits fp 0) of
                (Some i, Some f) \<Rightarrow> Inr (real i + real f / 10 ^ length fp)
              | _ \<Rightarrow> Inl ValueError)"

section \<open>stock\_categories.py\<close>

subsection \<open>Category and Ticker\<close>

record Ticker =
  ticker_name :: string
  categories :: "string list"

record Category =
  category_name :: string
  tickers :: "Ticker list"
  allocation_percentage :: real

text \<open>
  \<^verbatim>\<open>Category.__init__\<close>: \<^verbatim>\<open>float(allocation_percentage.replace('%', ''))\<close> inside
  \<^verbatim>\<open>try ... except TypeError: raise ParseError\<close>. Only a TypeError is turned into a
  ParseError; any other exception of \<^verbatim>\<open>float\<close> leaves the constructor as it is.
\<close>

definition Category_init :: "pyfloat \<Rightarrow> string \<Rightarrow> string \<Rightarrow> error + Category" where
  "Category_init pyfloat name allocation =
     (case pyfloat (filter (\<lambda>c. c \<noteq> CHR ''%'') allocation) of
        Inl e \<Rightarrow> if e = TypeError then Inl ParseError else Inl e
      | Inr v \<Rightarrow> Inr \<lparr>category_name = name, tickers = [], allocation_percentage = v\<rparr>)"

definition Ticker_init :: "string \<Rightarrow> string list \<Rightarrow> Ticker" where
  "Ticker_init name cats = \<lparr>ticker_name = name, categories = cats\<rparr>"

subsection \<open>trim\_trailing\_empty\_values\<close>

text \<open>
  The \<^verbatim>\<open>while num_elements > 0 and input_list[num_elements-1] == ""\<close> loop, by recursion
  on \<^verbatim>\<open>num_elements\<close>; the result is the slice \<^verbatim>\<open>input_list[:num_elements]\<close>.
\<close>

fun trim_count :: "string list \<Rightarrow> nat \<Rightarrow> nat" where
  "trim_count input_list 0 = 0"
| "trim_count input_list (Suc n) =
     (if input_list ! n = [] then trim_count input_list n else Suc n)"

definition trim_trailing_empty_values :: "string list \<Rightarrow> string list" where
  "trim_trailing_empty_values input_list =
     (if length input_list = 0 then input_list
      else take (trim_count input_list (length input_list)) input_list)"

subsection \<open>StockCategories.\_load\_info\_from\_csv\<close>

text \<open>
  The input is the list of rows that \<^verbatim>\<open>csv.reader\<close> yields; each loop takes rows from
  the front and returns the rows it has not read, so the next loop goes on where the
  previous one stopped. The local list \<^verbatim>\<open>categories\<close> is written and never read, and
  \<^verbatim>\<open>logging.warning\<close> changes no result; both are left out.
\<close>

type_synonym csv_rows = "string list list"
type_synonym categories_by_name = "(string \<times> Category) list"
type_synonym tickers_by_name = "(string \<times> Ticker) list"

text \<open>First loop, "load all basic settings".\<close>

fun settings_loop :: "pyfloat \<Rightarrow> csv_rows \<Rightarrow> real option \<Rightarrow> error + (real option \<times> csv_rows)" where
  "settings_loop pyfloat [] minimum_cash_amount = Inr (minimum_cash_amount, [])"
| "settings_loop pyfloat (r # reader) minimum_cash_amount =
     (let row = trim_trailing_empty_values r in
      if length row = 0 then settings_loop pyfloat reader minimum_cash_amount
      else if row ! 0 = ''Category'' then Inr (minimum_cash_amount, reader)
      else if row ! 0 = ''Stock ticker'' then Inr (minimum_cash_amount, reader)
      else if row ! 0 = ''Reserved cash amount'' then
        (case index row 1 of
           Inl e \<Rightarrow> if e = TypeError then Inl ParseError else Inl e
         | Inr cell \<Rightarrow>
            (case pyfloat cell of
               Inl e \<Rightarrow> if e = TypeError then Inl ParseError else Inl e
             | Inr v \<Rightarrow> settings_loop pyfloat reader (Some v)))
      else settings_loop pyfloat reader minimum_cash_amount)"

text \<open>Second loop, "load all categories".\<close>

fun categories_loop ::
  "pyfloat \<Rightarrow> csv_rows \<Rightarrow> categories_by_name \<Rightarrow> error + (categories_by_name \<times> csv_rows)" where
  "categories_loop pyfloat [] cbn = Inr (cbn, [])"
| "categories_loop pyfloat (r # reader) cbn =
     (let row = trim_trailing_empty_values r in
      if length row = 0 then categories_loop pyfloat reader cbn
      else if row ! 0 = ''Category'' then categories_loop pyfloat reader cbn
      else if row ! 0 = ''Stock ticker'' then Inr (cbn, reader)
      else
        (case index row 1 of
           Inl e \<Rightarrow> Inl e
         | Inr allocation \<Rightarrow>
            (case Category_init pyfloat (row ! 0) allocation of
               Inl e \<Rightarrow> Inl e
             | Inr c \<Rightarrow> categories_loop pyfloat reader (dict_set (row ! 0) c cbn))))"

text \<open>
  \<^verbatim>\<open>for category_name in category_names:
      categories_by_name[category_name].tickers.append(t)\<close>
\<close>

fun append_ticker :: "Ticker \<Rightarrow> string list \<Rightarrow> categories_by_name \<Rightarrow> error + categories_by_name" where
  "append_ticker t [] cbn = Inr cbn"
| "append_ticker t (cn # category_names) cbn =
     (case dict_get cbn cn of
        Inl e \<Rightarrow> Inl e
      | Inr c \<Rightarrow> append_ticker t category_names (dict_set cn (c\<lparr>tickers := tickers c @ [t]\<rparr>) cbn))"

text \<open>Third loop, "load all stock tickers and their categories".\<close>

fun tickers_loop ::
  "csv_rows \<Rightarrow> categories_by_name \<Rightarrow> tickers_by_name \<Rightarrow> error + (categories_by_name \<times> tickers_by_name)" where
  "tickers_loop [] cbn tbn = Inr (cbn, tbn)"
| "tickers_loop (r # reader) cbn tbn =
     (let row = trim_trailing_empty_values r in
      if length row = 0 then tickers_loop reader cbn tbn
      else if row ! 0 = ''Stock ticker'' then tickers_loop reader cbn tbn
      else
        (let t = Ticker_init (row ! 0) (drop 1 row) in
         case append_ticker t (drop 1 row) cbn of
           Inl e \<Rightarrow> Inl e
         | Inr cbn' \<Rightarrow> tickers_loop reader cbn' (dict_set (row ! 0) t tbn)))"

text \<open>The three loops in sequence (lines 66 to 121): what they leave when none of them raises.\<close>

definition load_sections ::
  "pyfloat \<Rightarrow> csv_rows \<Rightarrow> error + (real option \<times> categories_by_name \<times> tickers_by_name)" where
  "load_sections pyfloat rows =
     (case settings_loop pyfloat rows None of
        Inl e \<Rightarrow> Inl e
      | Inr (minimum_cash_amount, reader1) \<Rightarrow>
         (case categories_loop pyfloat reader1 [] of
            Inl e \<Rightarrow> Inl e
          | Inr (cbn, reader2) \<Rightarrow>
             (case tickers_loop reader2 cbn [] of
                Inl e \<Rightarrow> Inl e
              | Inr (cbn', tbn) \<Rightarrow> Inr (minimum_cash_amount, cbn', tbn))))"

text \<open>
  \<^verbatim>\<open>_load_info_from_csv\<close>: the loops, then the check that the setting was given.
  \<^verbatim>\<open>load_info_from_csv\<close> caches this result on the object and returns it.
\<close>

type_synonym csv_data = "real \<times> categories_by_name \<times> tickers_by_name"

definition load_info_from_csv :: "pyfloat \<Rightarrow> csv_rows \<Rightarrow> error + csv_data" where
  "load_info_from_csv pyfloat rows =
     (case load_sections pyfloat rows of
        Inl e \<Rightarrow> Inl e
      | Inr (minimum_cash_amount, cbn, tbn) \<Rightarrow>
         (case minimum_cash_amount of
            None \<Rightarrow> Inl ParseError
          | Some v \<Rightarrow> Inr (v, cbn, tbn)))"

subsection \<open>Accessors\<close>

definition get_categories_of_stock_ticker :: "pyfloat \<Rightarrow> csv_rows \<Rightarrow> string \<Rightarrow> error + string list" where
  "get_categories_of_stock_ticker pyfloat rows stock_ticker =
     (case load_info_from_csv pyfloat rows of
        Inl e \<Rightarrow> Inl e
      | Inr (minimum_cash_amount, cbn, tbn) \<Rightarrow>
         (case dict_get tbn stock_ticker of
            Inl e \<Rightarrow> if e = KeyError then Inl TickerNotFoundError else Inl e
          | Inr t \<Rightarrow> Inr (categories t)))"

definition get_categories :: "pyfloat \<Rightarrow> csv_rows \<Rightarrow> error + Category list" where
  "get_categories pyfloat rows =
     (case load_info_from_csv pyfloat rows of
        Inl e \<Rightarrow> Inl e
      | Inr (minimum_cash_amount, cbn, tbn) \<Rightarrow> Inr (map snd cbn))"

definition get_minimum_cash_amount :: "pyfloat \<Rightarrow> csv_rows \<Rightarrow> error + real" where
  "get_minimum_cash_amount pyfloat rows =
     (case load_info_from_csv pyfloat rows of
        Inl e \<Rightarrow> Inl e
      | Inr (minimum_cash_amount, cbn, tbn) \<Rightarrow> Inr minimum_cash_amount)"

text \<open>
  \<^verbatim>\<open>get_tickers_in_category\<close>. The handler of KeyError builds its message from the
  local \<^verbatim>\<open>category\<close>, which the failed lookup has not assigned: reading it raises
  UnboundLocalError before CategoryNotFoundError is constructed. The local is an option
  here, \<open>None\<close> while it is unassigned.
\<close>

definition get_tickers_in_category :: "pyfloat \<Rightarrow> csv_rows \<Rightarrow> string \<Rightarrow> error + Ticker list" where
  "get_tickers_in_category pyfloat rows name =
     (case load_info_from_csv pyfloat rows of
        Inl e \<Rightarrow> Inl e
      | Inr (minimum_cash_amount, cbn, tbn) \<Rightarrow>
         (let category = (None :: Category option) in
          case dict_get cbn name of
            Inl e \<Rightarrow>
              if e = KeyError then
                (case category of
                   None \<Rightarrow> Inl UnboundLocalError
                 | Some c \<Rightarrow> Inl CategoryNotFoundError)
              else Inl e
          | Inr c \<Rightarrow> Inr (tickers c)))"

section \<open>main.py\<close>

subsection \<open>RobinhoodManager.\_update\_positions\_dictionary\<close>

text \<open>
  What the brokerage returns for one position, the instrument and the quote already
  fetched: the numbers are still strings.
\<close>

record api_position =
  api_quantity :: string
  api_average_buy_price :: string
  instrument_symbol :: string
  quote_last_trade_price :: string
  quote_previous_close :: string

record Position =
  symbol :: string
  quantity :: real
  average_buy_price :: real
  current_price :: real
  previous_close_price :: real
  price_change_percent_today :: real
  total_cost :: real
  total_value :: real
  total_return_amount :: real
  total_return_percent :: real

text \<open>
  The body of the loop over the positions. Dividing by a previous close of zero raises
  ZeroDivisionError; the return is guarded by \<^verbatim>\<open>0 if total_cost == 0 else ...\<close>.
\<close>

definition update_position :: "pyfloat \<Rightarrow> api_position \<Rightarrow> error + Position" where
  "update_position pyfloat position =
     (case pyfloat (api_quantity position) of
        Inl e \<Rightarrow> Inl e
      | Inr q \<Rightarrow>
     (case pyfloat (api_average_buy_price position) of
        Inl e \<Rightarrow> Inl e
      | Inr abp \<Rightarrow>
     (case pyfloat (quote_last_trade_price position) of
        Inl e \<Rightarrow> Inl e
      | Inr cp \<Rightarrow>
     (case pyfloat (quote_previous_close position) of
        Inl e \<Rightarrow> Inl e
      | Inr pcp \<Rightarrow>
         (if pcp = 0 then Inl ZeroDivisionError
          else
            (let change = (cp - pcp) / pcp;
                 cost = q * abp;
                 val = q * cp;
                 return_amount = val - cost;
                 return_percent = (if cost = 0 then 0 else return_amount / cost)
             in Inr \<lparr>symbol = instrument_symbol position,
                     quantity = q,
                     average_buy_price = abp,
                     current_price = cp,
                     previous_close_price = pcp,
                     price_change_percent_today = change * 100,
                     total_cost = cost,
                     total_value = val,
                     total_return_amount = return_amount,
                     total_return_percent = return_percent * 100\<rparr>))))))"

type_synonym positions_dictionary = "(string \<times> Position) list"

fun update_positions_dictionary ::
  "pyfloat \<Rightarrow> api_position list \<Rightarrow> positions_dictionary \<Rightarrow> error + positions_dictionary" where
  "update_positions_dictionary pyfloat [] results = Inr results"
| "update_positions_dictionary pyfloat (position # positions) results =
     (case update_position pyfloat position of
        Inl e \<Rightarrow> Inl e
      | Inr entry \<Rightarrow>
          update_positions_dictionary pyfloat positions (dict_set (symbol entry) entry results))"

subsection \<open>main: the portfolio balance\<close>

text \<open>
  The loop \<^verbatim>\<open>for ticker in stocks_in_category\<close> of \<^verbatim>\<open>main\<close>, with the running
  \<^verbatim>\<open>allocation_to_category\<close> as accumulator. \<^verbatim>\<open>cash_amount\<close> is
  \<^verbatim>\<open>r.portfolio_dictionary['cash_amount']\<close> and \<^verbatim>\<open>minimum_cash_amount\<close> is what
  \<^verbatim>\<open>sc.get_minimum_cash_amount()\<close> returns. A ticker that is not a key of the
  positions is skipped; dividing by an empty category list raises ZeroDivisionError.
\<close>

fun allocation_to_category ::
  "positions_dictionary \<Rightarrow> real \<Rightarrow> real \<Rightarrow> Ticker list \<Rightarrow> real \<Rightarrow> error + real" where
  "allocation_to_category positions cash_amount minimum_cash_amount [] allocation = Inr allocation"
| "allocation_to_category positions cash_amount minimum_cash_amount (ticker # stocks) allocation =
     (if ticker_name ticker = ''Cash'' then
        (let cash = cash_amount - minimum_cash_amount in
         allocation_to_category positions cash_amount minimum_cash_amount stocks
           (if cash < 0 then 0 else cash))
      else
        (case dict_get positions (ticker_name ticker) of
           Inl e \<Rightarrow>
             if e = KeyError
             then allocation_to_category positions cash_amount minimum_cash_amount stocks allocation
             else Inl e
         | Inr position \<Rightarrow>
             if length (categories ticker) = 0 then Inl ZeroDivisionError
             else allocation_to_category positions cash_amount minimum_cash_amount stocks
                    (allocation + total_value position / real (length (categories ticker)))))"

text \<open>One line of the table: name, ideal, actual and needed percentage, holdings.\<close>

record balance_line =
  line_category :: string
  ideal :: real
  actual :: real
  needed :: real
  holdings :: "string list"

definition actual_allocation_percentage :: "real \<Rightarrow> real \<Rightarrow> error + real" where
  "actual_allocation_percentage allocation equity =
     (if equity = 0 then Inl ZeroDivisionError else Inr (100 * allocation / equity))"

definition balance_of_category ::
  "positions_dictionary \<Rightarrow> real \<Rightarrow> real \<Rightarrow> real \<Rightarrow> Category \<Rightarrow> Ticker list \<Rightarrow> error + balance_line" where
  "balance_of_category positions cash_amount equity minimum_cash_amount category stocks_in_category =
     (case allocation_to_category positions cash_amount minimum_cash_amount stocks_in_category 0 of
        Inl e \<Rightarrow> Inl e
      | Inr allocation \<Rightarrow>
         (case actual_allocation_percentage allocation equity of
            Inl e \<Rightarrow> Inl e
          | Inr percentage \<Rightarrow>
              Inr \<lparr>line_category = category_name category,
                   ideal = allocation_percentage category,
                   actual = percentage,
                   needed = allocation_percentage category - percentage,
                   holdings = map ticker_name stocks_in_category\<rparr>))"

text \<open>The loop \<^verbatim>\<open>for category in sc.get_categories()\<close>.\<close>

fun balance_lines ::
  "pyfloat \<Rightarrow> csv_rows \<Rightarrow> positions_dictionary \<Rightarrow> real \<Rightarrow> real \<Rightarrow> Category list \<Rightarrow> error + balance_line list" where
  "balance_lines pyfloat rows positions cash_amount equity [] = Inr []"
| "balance_lines pyfloat rows positions cash_amount equity (category # cs) =
     (case get_tickers_in_category pyfloat rows (category_name category) of
        Inl e \<Rightarrow> Inl e
      | Inr stocks_in_category \<Rightarrow>
         (case get_minimum_cash_amount pyfloat rows of
            Inl e \<Rightarrow> Inl e
          | Inr minimum_cash_amount \<Rightarrow>
             (case balance_of_category positions cash_amount equity minimum_cash_amount
                     category stocks_in_category of
                Inl e \<Rightarrow> Inl e
              | Inr line \<Rightarrow>
                 (case balance_lines pyfloat rows positions cash_amount equity cs of
                    Inl e \<Rightarrow> Inl e
                  | Inr lines \<Rightarrow> Inr (line # lines)))))"

definition portfolio_balance ::
  "pyfloat \<Rightarrow> csv_rows \<Rightarrow> positions_dictionary \<Rightarrow> real \<Rightarrow> real \<Rightarrow> error + balance_line list" where
  "portfolio_balance pyfloat rows positions cash_amount equity =
     (case get_categories pyfloat rows of
        Inl e \<Rightarrow> Inl e
      | Inr cs \<Rightarrow> balance_lines pyfloat rows positions cash_amount equity cs)"

section \<open>Notions used in the statements\<close>

text \<open>
  What a ticker of a category's list adds to the allocation of that category when it is
  not "Cash": nothing when it is not held, its \<open>total_value\<close> divided by the number of
  categories it declares when it is.
\<close>

definition contribution :: "positions_dictionary \<Rightarrow> Ticker \<Rightarrow> real" where
  "contribution positions ticker =
     (case map_of positions (ticker_name ticker) of
        None \<Rightarrow> 0
      | Some position \<Rightarrow> total_value position / real (length (categories ticker)))"

text \<open>The first cell of a row after trimming, \<open>None\<close> for a row that is empty then.\<close>

definition first_cell :: "string list \<Rightarrow> string option" where
  "first_cell r = (case trim_trailing_empty_values r of [] \<Rightarrow> None | cell # _ \<Rightarrow> Some cell)"


text \<open>
  The ticker declarations among the rows that the ticker loop reads: the trimmed rows
  that are neither empty nor a "Stock ticker" header.
\<close>

definition ticker_rows :: "csv_rows \<Rightarrow> csv_rows" where
  "ticker_rows reader =
     filter (\<lambda>row. row \<noteq> [] \<and> hd row \<noteq> ''Stock ticker'') (map trim_trailing_empty_values reader)"

text \<open>The names of the tickers listed under the categories of a dictionary.\<close>

definition listed_ticker_names :: "categories_by_name \<Rightarrow> string set" where
  "listed_ticker_names cbn = (\<Union>(n, c) \<in> set cbn. ticker_name ` set (tickers c))"

text \<open>
  The names that the ticker declarations with at least one category declare, and the names
  of the parsed tickers (the values of \<^verbatim>\<open>tickers_by_name\<close>) whose category list is not
  empty.
\<close>

definition declared_ticker_names :: "csv_rows \<Rightarrow> string list" where
  "declared_ticker_names reader = map hd (filter (\<lambda>row. tl row \<noteq> []) (ticker_rows reader))"

definition tickers_with_categories :: "tickers_by_name \<Rightarrow> string list" where
  "tickers_with_categories tbn =
     map ticker_name (filter (\<lambda>t. categories t \<noteq> []) (map snd tbn))"

text \<open>
  \<^verbatim>\<open>get_tickers_in_category\<close> asked for every category that \<^verbatim>\<open>get_categories\<close>
  returns, the names of the tickers it returns collected in one list.
\<close>

fun ticker_names_in_categories :: "pyfloat \<Rightarrow> csv_rows \<Rightarrow> Category list \<Rightarrow> error + string list" where
  "ticker_names_in_categories pyfloat rows [] = Inr []"
| "ticker_names_in_categories pyfloat rows (category # cs) =
     (case get_tickers_in_category pyfloat rows (category_name category) of
        Inl e \<Rightarrow> Inl e
      | Inr ts \<Rightarrow>
         (case ticker_names_in_categories pyfloat rows cs of
            Inl e \<Rightarrow> Inl e
          | Inr names \<Rightarrow> Inr (map ticker_name ts @ names)))"

definition ticker_names_in_all_categories :: "pyfloat \<Rightarrow> csv_rows \<Rightarrow> error + string list" where
  "ticker_names_in_all_categories pyfloat rows =
     (case get_categories pyfloat rows of
        Inl e \<Rightarrow> Inl e
      | Inr cs \<Rightarrow> ticker_names_in_categories pyfloat rows cs)"

text \<open>
  What the ticker declarations list under the category \<open>n\<close>: for every declaration in
  turn, its ticker once for each time the declaration names \<open>n\<close>.
\<close>

definition listed_by_rows :: "csv_rows \<Rightarrow> string \<Rightarrow> Ticker list" where
  "listed_by_rows reader n =
     concat (map (\<lambda>row. replicate (count_list (tl row) n) (Ticker_init (hd row) (tl row)))
                 (ticker_rows reader))"

text \<open>
  Two invariants of \<^verbatim>\<open>categories_by_name\<close> while the configuration is read: the keys
  are distinct and each is the name of its category, and every ticker listed under a
  category declares that category.
\<close>

definition keyed_by_name :: "categories_by_name \<Rightarrow> bool" where
  "keyed_by_name cbn \<longleftrightarrow> distinct (map fst cbn) \<and> (\<forall>(n, c) \<in> set cbn. category_name c = n)"

definition listed_under_declared :: "categories_by_name \<Rightarrow> bool" where
  "listed_under_declared cbn \<longleftrightarrow>
     (\<forall>(n, c) \<in> set cbn. \<forall>t \<in> set (tickers c). n \<in> set (categories t))"

text \<open>
  The position of the end-to-end example: 10 shares of AAPL bought at 100, now at 150.
\<close>

definition example_positions :: positions_dictionary where
  "example_positions =
     [(''AAPL'',
       \<lparr>symbol = ''AAPL'', quantity = 10, average_buy_price = 100, current_price = 150,
        previous_close_price = 120, price_change_percent_today = 25, total_cost = 1000,
        total_value = 1500, total_return_amount = 500, total_return_percent = 50\<rparr>)]"

section \<open>Properties\<close>

subsection \<open>Dictionaries\<close>

lemma map_of_dict_set: "map_of (dict_set k v d) = (map_of d)(k \<mapsto> v)"
  by (induction d) (auto simp: fun_eq_iff)

lemma keys_dict_set: "fst ` set (dict_set k v d) = insert k (fst ` set d)"
  by (induction k v d rule: dict_set.induct) auto

lemma distinct_dict_set: "distinct (map fst d) \<Longrightarrow> distinct (map fst (dict_set k v d))"
proof (induction d)
  case Nil
  then show ?case by simp
next
  case (Cons a d)
  obtain k' v' where a: "a = (k', v')" by (cases a)
  show ?case
  proof (cases "k = k'")
    case True
    with Cons.prems a show ?thesis by simp
  next
    case False
    from Cons.prems a have "k' \<notin> fst ` set d" and "distinct (map fst d)" by auto
    with False Cons.IH a show ?thesis by (simp add: keys_dict_set)
  qed
qed

subsection \<open>Positions\<close>



subsection \<open>Errors of the parser and of the accessors\<close>

text \<open>
  C3. A category row whose percentage cell is not a number, so that \<^verbatim>\<open>float\<close> raises
  ValueError on it once the \<^verbatim>\<open>%\<close> signs are removed: the constructor lets the
  ValueError through, since its handler catches TypeError only, and the category loop
  stops with that ValueError, no category registered. The specification names ParseError
  for this failure.
\<close>

theorem Category_init_non_numeric:
  assumes "pyfloat (filter (\<lambda>c. c \<noteq> CHR ''%'') allocation) = Inl ValueError"
      and "trim_trailing_empty_values r = [name, allocation]"
      and "name \<noteq> ''Category''" and "name \<noteq> ''Stock ticker''"
  shows "Category_init pyfloat name allocation = Inl ValueError
       \<and> categories_loop pyfloat (r # reader) cbn = Inl ValueError"
  using assms by (simp add: Category_init_def index_def)

theorem Category_init_non_numeric_witness:
  "Category_init float_decimal ''Tech'' ''abc%'' = Inl ValueError
   \<and> categories_loop float_decimal [[''Tech'', ''abc%'', '''']] [] = Inl ValueError
   \<and> load_info_from_csv float_decimal
        [[''Reserved cash amount'', ''1000''], [''Category'', ''Allocation''], [''Tech'', ''abc%'', '''']]
      = Inl ValueError"
proof -
  have a: "float_decimal (filter (\<lambda>c. c \<noteq> CHR ''%'') ''abc%'') = Inl ValueError"
    by code_simp
  have b: "trim_trailing_empty_values [''Tech'', ''abc%'', ''''] = [''Tech'', ''abc%'']"
    by code_simp
  have c: "load_info_from_csv float_decimal
        [[''Reserved cash amount'', ''1000''], [''Category'', ''Allocation''], [''Tech'', ''abc%'', '''']]
      = Inl ValueError"
    by code_simp
  from Category_init_non_numeric
         [where pyfloat = float_decimal and allocation = "''abc%''" and name = "''Tech''"
            and r = "[''Tech'', ''abc%'', []]" and reader = "[]" and cbn = "[]"]
       a b c
  show ?thesis by simp
qed

text \<open>
  C4. On a configuration that parsed, \<^verbatim>\<open>get_tickers_in_category\<close> returns the ticker
  list of a category that exists; for a name that is no category it raises
  UnboundLocalError, from the message of the CategoryNotFoundError it was about to raise.
  The specification names CategoryNotFoundError for this failure.
\<close>

theorem get_tickers_in_category_lookup:
  assumes "load_info_from_csv pyfloat rows = Inr (minimum_cash_amount, cbn, tbn)"
  shows "get_tickers_in_category pyfloat rows name =
           (case map_of cbn name of
              None \<Rightarrow> Inl UnboundLocalError
            | Some c \<Rightarrow> Inr (tickers c))"
  using assms by (simp add: get_tickers_in_category_def dict_get_def split: option.splits)

theorem get_tickers_in_category_lookup_witness:
  "load_info_from_csv float_decimal
     [[''Reserved cash amount'', ''1000''], [''Category'', ''Allocation''], [''Tech'', ''50%''],
      [''Stock ticker'', ''Categories''], [''AAPL'', ''Tech'']]
    = Inr (1000,
           [(''Tech'', \<lparr>category_name = ''Tech'',
                        tickers = [\<lparr>ticker_name = ''AAPL'', categories = [''Tech'']\<rparr>],
                        allocation_percentage = 50\<rparr>)],
           [(''AAPL'', \<lparr>ticker_name = ''AAPL'', categories = [''Tech'']\<rparr>)])
   \<and> get_tickers_in_category float_decimal
     [[''Reserved cash amount'', ''1000''], [''Category'', ''Allocation''], [''Tech'', ''50%''],
      [''Stock ticker'', ''Categories''], [''AAPL'', ''Tech'']] ''Energy''
    = Inl UnboundLocalError
   \<and> get_tickers_in_category float_decimal
     [[''Reserved cash amount'', ''1000''], [''Category'', ''Allocation''], [''Tech'', ''50%''],
      [''Stock ticker'', ''Categories''], [''AAPL'', ''Tech'']] ''Tech''
    = Inr [\<lparr>ticker_name = ''AAPL'', categories = [''Tech'']\<rparr>]"
proof -
  have a: "load_info_from_csv float_decimal
     [[''Reserved cash amount'', ''1000''], [''Category'', ''Allocation''], [''Tech'', ''50%''],
      [''Stock ticker'', ''Categories''], [''AAPL'', ''Tech'']]
    = Inr (1000,
           [(''Tech'', \<lparr>category_name = ''Tech'',
                        tickers = [\<lparr>ticker_name = ''AAPL'', categories = [''Tech'']\<rparr>],
                        allocation_percentage = 50\<rparr>)],
           [(''AAPL'', \<lparr>ticker_name = ''AAPL'', categories = [''Tech'']\<rparr>)])"
    by code_simp
  from get_tickers_in_category_lookup [OF a, of "''Energy''"]
       get_tickers_in_category_lookup [OF a, of "''Tech''"] a
  show ?thesis by simp
qed

text \<open>
  C5. With a "Stock ticker" marker and no "Category" marker before it, the first loop
  stops at the marker and the category loop reads the rows that follow: the row
  \<^verbatim>\<open>AAPL,50\<close> becomes a category named AAPL and no ticker is registered, and the row
  \<^verbatim>\<open>AAPL,Tech\<close> stops the parse with the ValueError of \<^verbatim>\<open>float("Tech")\<close>. The
  specification has both rows read as ticker declarations.
\<close>

theorem stock_ticker_marker_enters_category_section:
  "load_info_from_csv float_decimal
     [[''Reserved cash amount'', ''1000''], [''Stock ticker'', ''Categories''], [''AAPL'', ''50'']]
    = Inr (1000,
           [(''AAPL'', \<lparr>category_name = ''AAPL'', tickers = [], allocation_percentage = 50\<rparr>)],
           [])
   \<and> load_info_from_csv float_decimal
     [[''Reserved cash amount'', ''1000''], [''Stock ticker'', ''Categories''], [''AAPL'', ''Tech'']]
    = Inl ValueError"
  by code_simp

subsection \<open>The allocation of a category\<close>

lemma allocation_cash_step:
  "ticker_name t = ''Cash'' \<Longrightarrow>
   allocation_to_category P c m (t # ts) a = allocation_to_category P c m ts (max 0 (c - m))"
  by (simp add: Let_def max_def)

lemma allocation_append:
  "allocation_to_category P c m (xs @ ys) a =
     (case allocation_to_category P c m xs a of
        Inl e \<Rightarrow> Inl e
      | Inr a' \<Rightarrow> allocation_to_category P c m ys a')"
  by (induction xs arbitrary: a) (simp_all add: dict_get_def Let_def split: option.splits)

lemma allocation_without_cash:
  assumes "\<forall>t \<in> set ts. ticker_name t \<noteq> ''Cash''"
      and "\<forall>t \<in> set ts. map_of P (ticker_name t) \<noteq> None \<longrightarrow> categories t \<noteq> []"
  shows "allocation_to_category P c m ts a = Inr (a + sum_list (map (contribution P) ts))"
  using assms
  by (induction ts arbitrary: a)
     (auto simp: dict_get_def contribution_def split: option.splits)

lemma allocation_total:
  assumes "\<forall>t \<in> set ts. ticker_name t \<noteq> ''Cash'' \<and> map_of P (ticker_name t) \<noteq> None \<longrightarrow> categories t \<noteq> []"
  shows "\<exists>a'. allocation_to_category P c m ts a = Inr a'"
  using assms
  by (induction ts arbitrary: a)
     (auto simp: dict_get_def Let_def split: option.splits)

text \<open>
  C1, as amended. A ticker named "Cash" sets the running allocation to
  \<open>max 0 (cash_amount - minimum_cash_amount)\<close> whatever had been accumulated; the
  tickers listed after the last "Cash" still add their shares to it. So the category's
  allocation is the cash amount plus the shares of the tickers after the last "Cash",
  and it is the cash amount alone when none of those is held. No held ticker has an
  empty category list here, or the division would raise.
\<close>

theorem cash_replaces_allocation:
  assumes "ticker_name cash = ''Cash''"
      and "\<forall>t \<in> set after. ticker_name t \<noteq> ''Cash''"
      and "\<forall>t \<in> set (before @ after).
             ticker_name t \<noteq> ''Cash'' \<and> map_of positions (ticker_name t) \<noteq> None
             \<longrightarrow> categories t \<noteq> []"
  shows "allocation_to_category positions cash_amount minimum_cash_amount (cash # after) allocation
           = allocation_to_category positions cash_amount minimum_cash_amount after
               (max 0 (cash_amount - minimum_cash_amount))
       \<and> allocation_to_category positions cash_amount minimum_cash_amount
             (before @ cash # after) allocation
           = Inr (max 0 (cash_amount - minimum_cash_amount)
                  + sum_list (map (contribution positions) after))
       \<and> ((\<forall>t \<in> set after. map_of positions (ticker_name t) = None) \<longrightarrow>
            allocation_to_category positions cash_amount minimum_cash_amount
               (before @ cash # after) allocation
             = Inr (max 0 (cash_amount - minimum_cash_amount)))"
proof -
  have step: "allocation_to_category positions cash_amount minimum_cash_amount (cash # after) a
           = allocation_to_category positions cash_amount minimum_cash_amount after
               (max 0 (cash_amount - minimum_cash_amount))" for a
    using assms(1) by (rule allocation_cash_step)
  from assms(3) have "\<forall>t \<in> set before.
             ticker_name t \<noteq> ''Cash'' \<and> map_of positions (ticker_name t) \<noteq> None
             \<longrightarrow> categories t \<noteq> []" by simp
  from allocation_total [OF this]
  obtain a' where pre: "allocation_to_category positions cash_amount minimum_cash_amount before allocation = Inr a'"
    by blast
  from assms(2,3) have held: "\<forall>t \<in> set after. map_of positions (ticker_name t) \<noteq> None \<longrightarrow> categories t \<noteq> []"
    by simp
  have rest: "allocation_to_category positions cash_amount minimum_cash_amount after
               (max 0 (cash_amount - minimum_cash_amount))
            = Inr (max 0 (cash_amount - minimum_cash_amount)
                  + sum_list (map (contribution positions) after))"
    using assms(2) held by (rule allocation_without_cash)
  have whole: "allocation_to_category positions cash_amount minimum_cash_amount
             (before @ cash # after) allocation
           = Inr (max 0 (cash_amount - minimum_cash_amount)
                  + sum_list (map (contribution positions) after))"
    by (simp only: allocation_append pre sum.case step rest)
  have zero: "sum_list (map (contribution positions) after) = 0"
    if "\<forall>t \<in> set after. map_of positions (ticker_name t) = None"
    using that by (induction after) (simp_all add: contribution_def)
  show ?thesis using step rest whole zero by simp
qed

theorem cash_replaces_allocation_witness:
  "allocation_to_category example_positions 2000 1000
     [\<lparr>ticker_name = ''AAPL'', categories = [''Mix'']\<rparr>,
      \<lparr>ticker_name = ''Cash'', categories = [''Mix'']\<rparr>,
      \<lparr>ticker_name = ''MSFT'', categories = [''Mix'']\<rparr>] 0
   = Inr 1000"
  using cash_replaces_allocation
          [where cash = "\<lparr>ticker_name = ''Cash'', categories = [''Mix'']\<rparr>"
             and before = "[\<lparr>ticker_name = ''AAPL'', categories = [''Mix'']\<rparr>]"
             and after = "[\<lparr>ticker_name = ''MSFT'', categories = [''Mix'']\<rparr>]"
             and positions = example_positions and cash_amount = 2000
             and minimum_cash_amount = 1000 and allocation = 0]
  by (simp add: example_positions_def dict_get_def)

theorem cash_then_symbol_counterexample:
  "allocation_to_category example_positions 2000 1000
     [\<lparr>ticker_name = ''Cash'', categories = [''Mix'']\<rparr>,
      \<lparr>ticker_name = ''AAPL'', categories = [''Mix'']\<rparr>] 0
   = Inr 2500
   \<and> max 0 (2000 - 1000) = (1000 :: real)
   \<and> portfolio_balance float_decimal
       [[''Reserved cash amount'', ''1000''], [''Category'', ''Allocation''], [''Mix'', ''50%''],
        [''Stock ticker'', ''Categories''], [''Cash'', ''Mix''], [''AAPL'', ''Mix'']]
       example_positions 2000 10000
     = Inr [\<lparr>line_category = ''Mix'', ideal = 50, actual = 25, needed = 25,
              holdings = [''Cash'', ''AAPL'']\<rparr>]
   \<and> portfolio_balance float_decimal
       [[''Reserved cash amount'', ''1000''], [''Category'', ''Allocation''], [''Mix'', ''50%''],
        [''Stock ticker'', ''Categories''], [''AAPL'', ''Mix''], [''Cash'', ''Mix'']]
       example_positions 2000 10000
     = Inr [\<lparr>line_category = ''Mix'', ideal = 50, actual = 10, needed = 40,
              holdings = [''AAPL'', ''Cash'']\<rparr>]"
  by code_simp

subsection \<open>The sections of the configuration\<close>


lemma first_cell_Cons: "trim_trailing_empty_values r = c # cs \<Longrightarrow> first_cell r = Some c"
  by (simp add: first_cell_def)








lemma keys_dict_set_present:
  "map_of d k = Some v \<Longrightarrow> map fst (dict_set k v' d) = map fst d"
  by (induction k v' d rule: dict_set.induct) (auto split: if_splits)

lemma append_ticker_keys:
  "append_ticker t cns cbn = Inr cbn' \<Longrightarrow> map fst cbn' = map fst cbn"
proof (induction cns arbitrary: cbn)
  case Nil
  then show ?case by simp
next
  case (Cons cn cns)
  from Cons.prems obtain c where c: "map_of cbn cn = Some c"
    and r: "append_ticker t cns (dict_set cn (c\<lparr>tickers := tickers c @ [t]\<rparr>) cbn) = Inr cbn'"
    by (auto simp: dict_get_def split: option.splits)
  from Cons.IH [OF r] keys_dict_set_present [OF c] show ?case by simp
qed

lemma append_ticker_KeyError:
  "cn \<in> set cns \<Longrightarrow> map_of cbn cn = None \<Longrightarrow> append_ticker t cns cbn = Inl KeyError"
proof (induction cns arbitrary: cbn)
  case Nil
  then show ?case by simp
next
  case (Cons a cns)
  show ?case
  proof (cases "map_of cbn a")
    case None
    then show ?thesis by (simp add: dict_get_def)
  next
    case (Some c)
    with Cons.prems have "cn \<noteq> a" and "cn \<in> set cns" by auto
    moreover from \<open>cn \<noteq> a\<close> Cons.prems(2)
    have "map_of (dict_set a (c\<lparr>tickers := tickers c @ [t]\<rparr>) cbn) cn = None"
      by (simp add: map_of_dict_set)
    ultimately have "append_ticker t cns (dict_set a (c\<lparr>tickers := tickers c @ [t]\<rparr>) cbn) = Inl KeyError"
      using Cons.IH by blast
    with Some show ?thesis by (simp add: dict_get_def)
  qed
qed

lemma tickers_loop_keys:
  "tickers_loop rows cbn tbn = Inr (cbn', tbn') \<Longrightarrow> map fst cbn' = map fst cbn"
proof (induction rows arbitrary: cbn tbn)
  case Nil
  then show ?case by simp
next
  case (Cons a rows)
  show ?case
  proof (cases "trim_trailing_empty_values a")
    case Nil
    with Cons.prems Cons.IH show ?thesis by simp
  next
    case (Cons c cs)
    show ?thesis
    proof (cases "c = ''Stock ticker''")
      case True
      with Cons Cons.prems Cons.IH show ?thesis by simp
    next
      case False
      with Cons Cons.prems obtain cbn1 where
        a: "append_ticker (Ticker_init c cs) cs cbn = Inr cbn1"
        and l: "tickers_loop rows cbn1 (dict_set c (Ticker_init c cs) tbn) = Inr (cbn', tbn')"
        by (auto simp: Let_def split: sum.splits)
      from Cons.IH [OF l] append_ticker_keys [OF a] show ?thesis by simp
    qed
  qed
qed

lemma tickers_loop_append:
  "tickers_loop (before @ rest) cbn tbn =
     (case tickers_loop before cbn tbn of
        Inl e \<Rightarrow> Inl e
      | Inr (cbn', tbn') \<Rightarrow> tickers_loop rest cbn' tbn')"
  by (induction before arbitrary: cbn tbn) (simp_all add: Let_def split: sum.splits)

text \<open>
  C7. A row of the ticker section that names a category the category section has not
  constructed, the rows of the ticker section before it read without error: the ticker
  loop raises KeyError at that row, and so does the parse; the reference is not skipped.
\<close>

theorem undeclared_category_KeyError:
  assumes "settings_loop pyfloat rows None = Inr (m, reader1)"
      and "categories_loop pyfloat reader1 [] = Inr (cbn, before @ r # after)"
      and "tickers_loop before cbn [] = Inr (cbn', tbn')"
      and "trim_trailing_empty_values r = name # category_names"
      and "name \<noteq> ''Stock ticker''"
      and "cn \<in> set category_names"
      and "map_of cbn cn = None"
  shows "tickers_loop (r # after) cbn' tbn' = Inl KeyError
       \<and> load_info_from_csv pyfloat rows = Inl KeyError"
proof -
  from tickers_loop_keys [OF assms(3)] assms(7) have "map_of cbn' cn = None"
    by (metis map_of_eq_None_iff set_map)
  with assms(6) have "append_ticker (Ticker_init name category_names) category_names cbn' = Inl KeyError"
    by (rule append_ticker_KeyError)
  with assms(4,5) have row: "tickers_loop (r # after) cbn' tbn' = Inl KeyError"
    by (simp add: Let_def)
  with assms(3) have "tickers_loop (before @ r # after) cbn [] = Inl KeyError"
    by (simp add: tickers_loop_append)
  with assms(1,2) have "load_sections pyfloat rows = Inl KeyError"
    by (simp add: load_sections_def)
  with row show ?thesis by (simp add: load_info_from_csv_def)
qed

theorem undeclared_category_KeyError_witness:
  "load_info_from_csv float_decimal
     [[''Reserved cash amount'', ''1000''], [''Category'', ''Allocation''], [''Tech'', ''50%''],
      [''Stock ticker'', ''Categories''], [''AAPL'', ''Tech''], [''MSFT'', ''Energy'']]
   = Inl KeyError"
proof -
  have a: "settings_loop float_decimal
     [[''Reserved cash amount'', ''1000''], [''Category'', ''Allocation''], [''Tech'', ''50%''],
      [''Stock ticker'', ''Categories''], [''AAPL'', ''Tech''], [''MSFT'', ''Energy'']] None
    = Inr (Some 1000, [[''Tech'', ''50%''],
      [''Stock ticker'', ''Categories''], [''AAPL'', ''Tech''], [''MSFT'', ''Energy'']])"
    by code_simp
  have b: "categories_loop float_decimal [[''Tech'', ''50%''],
      [''Stock ticker'', ''Categories''], [''AAPL'', ''Tech''], [''MSFT'', ''Energy'']] []
    = Inr ([(''Tech'', \<lparr>category_name = ''Tech'', tickers = [], allocation_percentage = 50\<rparr>)],
           [[''AAPL'', ''Tech'']] @ [''MSFT'', ''Energy''] # [])"
    by code_simp
  have c: "tickers_loop [[''AAPL'', ''Tech'']]
             [(''Tech'', \<lparr>category_name = ''Tech'', tickers = [], allocation_percentage = 50\<rparr>)] []
    = Inr ([(''Tech'', \<lparr>category_name = ''Tech'',
                         tickers = [\<lparr>ticker_name = ''AAPL'', categories = [''Tech'']\<rparr>],
                         allocation_percentage = 50\<rparr>)],
           [(''AAPL'', \<lparr>ticker_name = ''AAPL'', categories = [''Tech'']\<rparr>)])"
    by code_simp
  have d: "trim_trailing_empty_values [''MSFT'', ''Energy''] = ''MSFT'' # [''Energy'']"
    by code_simp
  have e: "''MSFT'' \<noteq> ''Stock ticker''" by simp
  have f: "''Energy'' \<in> set [''Energy'']" by simp
  have g: "map_of [(''Tech'', \<lparr>category_name = ''Tech'', tickers = [], allocation_percentage = 50\<rparr>)]
             ''Energy'' = None" by simp
  from undeclared_category_KeyError [OF a b c d e f g] show ?thesis by simp
qed

lemma settings_loop_append:
  assumes "\<forall>p \<in> set before. first_cell p \<noteq> Some ''Category'' \<and> first_cell p \<noteq> Some ''Stock ticker''"
  shows "settings_loop pf (before @ rest) m =
     (case settings_loop pf before m of
        Inl e \<Rightarrow> Inl e
      | Inr (m', unread) \<Rightarrow> settings_loop pf rest m')"
  using assms
proof (induction before arbitrary: m)
  case Nil
  then show ?case by simp
next
  case (Cons a before)
  show ?case
  proof (cases "trim_trailing_empty_values a")
    case Nil
    with Cons show ?thesis by simp
  next
    case (Cons c cs)
    from first_cell_Cons [OF Cons] Cons.prems
    have "c \<noteq> ''Category''" "c \<noteq> ''Stock ticker''" by auto
    with Cons Cons.IH Cons.prems show ?thesis
      by (auto simp: Let_def split: sum.splits)
  qed
qed

lemma categories_loop_append:
  assumes "\<forall>p \<in> set before. first_cell p \<noteq> Some ''Stock ticker''"
  shows "categories_loop pf (before @ rest) cbn =
     (case categories_loop pf before cbn of
        Inl e \<Rightarrow> Inl e
      | Inr (cbn', unread) \<Rightarrow> categories_loop pf rest cbn')"
  using assms
proof (induction before arbitrary: cbn)
  case Nil
  then show ?case by simp
next
  case (Cons a before)
  show ?case
  proof (cases "trim_trailing_empty_values a")
    case Nil
    with Cons show ?thesis by simp
  next
    case (Cons c cs)
    from first_cell_Cons [OF Cons] Cons.prems
    have "c \<noteq> ''Stock ticker''" by auto
    with Cons Cons.IH Cons.prems show ?thesis
      by (auto simp: Let_def split: sum.splits)
  qed
qed

text \<open>
  C10. A row that is the single cell "Reserved cash amount" after trimming, reached in
  the settings section, and a row of a single cell that is neither marker, reached in
  the category section: reading the missing second cell raises IndexError, which no
  handler catches, and the parse ends with IndexError, not ParseError.
\<close>

theorem one_cell_row_IndexError:
  "((\<forall>p \<in> set before. first_cell p \<noteq> Some ''Category'' \<and> first_cell p \<noteq> Some ''Stock ticker'')
      \<and> settings_loop pyfloat before None = Inr (m, unread)
      \<and> trim_trailing_empty_values r = [''Reserved cash amount'']
     \<longrightarrow> settings_loop pyfloat (r # after) m = Inl IndexError
         \<and> load_info_from_csv pyfloat (before @ r # after) = Inl IndexError)
   \<and> (settings_loop pyfloat rows None = Inr (m', before' @ r' # after')
      \<and> (\<forall>p \<in> set before'. first_cell p \<noteq> Some ''Stock ticker'')
      \<and> categories_loop pyfloat before' [] = Inr (cbn, unread')
      \<and> trim_trailing_empty_values r' = [name]
      \<and> name \<noteq> ''Category'' \<and> name \<noteq> ''Stock ticker''
     \<longrightarrow> categories_loop pyfloat (r' # after') cbn = Inl IndexError
         \<and> load_info_from_csv pyfloat rows = Inl IndexError)"
proof -
  have a: "settings_loop pyfloat (r # after) m = Inl IndexError
         \<and> load_info_from_csv pyfloat (before @ r # after) = Inl IndexError"
    if h: "\<forall>p \<in> set before. first_cell p \<noteq> Some ''Category'' \<and> first_cell p \<noteq> Some ''Stock ticker''"
      and s: "settings_loop pyfloat before None = Inr (m, unread)"
      and t: "trim_trailing_empty_values r = [''Reserved cash amount'']"
  proof -
    from t have row: "settings_loop pyfloat (r # after) m = Inl IndexError"
      by (simp add: index_def)
    with s have "settings_loop pyfloat (before @ r # after) None = Inl IndexError"
      by (simp add: settings_loop_append [OF h])
    then have "load_info_from_csv pyfloat (before @ r # after) = Inl IndexError"
      by (simp add: load_info_from_csv_def load_sections_def)
    with row show ?thesis by simp
  qed
  have b: "categories_loop pyfloat (r' # after') cbn = Inl IndexError
         \<and> load_info_from_csv pyfloat rows = Inl IndexError"
    if s: "settings_loop pyfloat rows None = Inr (m', before' @ r' # after')"
      and h: "\<forall>p \<in> set before'. first_cell p \<noteq> Some ''Stock ticker''"
      and c: "categories_loop pyfloat before' [] = Inr (cbn, unread')"
      and t: "trim_trailing_empty_values r' = [name]"
      and n: "name \<noteq> ''Category''" "name \<noteq> ''Stock ticker''"
  proof -
    from t n have row: "categories_loop pyfloat (r' # after') cbn = Inl IndexError"
      by (simp add: index_def)
    with c have "categories_loop pyfloat (before' @ r' # after') [] = Inl IndexError"
      by (simp add: categories_loop_append [OF h])
    with s have "load_info_from_csv pyfloat rows = Inl IndexError"
      by (simp add: load_info_from_csv_def load_sections_def)
    with row show ?thesis by simp
  qed
  from a b show ?thesis by blast
qed

theorem one_cell_row_IndexError_witness:
  "load_info_from_csv float_decimal
     [[''Unknown setting'', ''1''], [''Reserved cash amount'', '''']] = Inl IndexError
   \<and> load_info_from_csv float_decimal
     [[''Reserved cash amount'', ''1000''], [''Category'', ''Allocation''], [''Tech'', ''50%''],
      [''Energy'', '''']] = Inl IndexError"
proof -
  have a1: "\<forall>p \<in> set [[''Unknown setting'', ''1'']].
              first_cell p \<noteq> Some ''Category'' \<and> first_cell p \<noteq> Some ''Stock ticker''"
    by code_simp
  have a2: "settings_loop float_decimal [[''Unknown setting'', ''1'']] None = Inr (None, [])"
    by code_simp
  have a3: "trim_trailing_empty_values [''Reserved cash amount'', ''''] = [''Reserved cash amount'']"
    by code_simp
  from one_cell_row_IndexError
         [where before = "[[''Unknown setting'', ''1'']]" and pyfloat = float_decimal
            and m = None and unread = "[]" and r = "[''Reserved cash amount'', []]"
            and after = "[]"]
       a1 a2 a3
  have a: "load_info_from_csv float_decimal
     ([[''Unknown setting'', ''1'']] @ [''Reserved cash amount'', ''''] # []) = Inl IndexError"
    by blast
  have b1: "settings_loop float_decimal
     [[''Reserved cash amount'', ''1000''], [''Category'', ''Allocation''], [''Tech'', ''50%''],
      [''Energy'', '''']] None
     = Inr (Some 1000, [[''Tech'', ''50%'']] @ [''Energy'', ''''] # [])"
    by code_simp
  have b2: "\<forall>p \<in> set [[''Tech'', ''50%'']]. first_cell p \<noteq> Some ''Stock ticker''"
    by code_simp
  have b3: "categories_loop float_decimal [[''Tech'', ''50%'']] []
     = Inr ([(''Tech'', \<lparr>category_name = ''Tech'', tickers = [], allocation_percentage = 50\<rparr>)], [])"
    by code_simp
  have b4: "trim_trailing_empty_values [''Energy'', ''''] = [''Energy'']"
    by code_simp
  have b5: "''Energy'' \<noteq> ''Category'' \<and> ''Energy'' \<noteq> ''Stock ticker''" by simp
  from one_cell_row_IndexError
         [where rows = "[[''Reserved cash amount'', ''1000''], [''Category'', ''Allocation''],
                         [''Tech'', ''50%''], [''Energy'', []]]"
            and pyfloat = float_decimal and m' = "Some 1000" and before' = "[[''Tech'', ''50%'']]"
            and r' = "[''Energy'', []]" and after' = "[]"
            and cbn = "[(''Tech'', \<lparr>category_name = ''Tech'', tickers = [], allocation_percentage = 50\<rparr>)]"
            and unread' = "[]" and name = "''Energy''"]
       b1 b2 b3 b4 b5
  have b: "load_info_from_csv float_decimal
     [[''Reserved cash amount'', ''1000''], [''Category'', ''Allocation''], [''Tech'', ''50%''],
      [''Energy'', '''']] = Inl IndexError"
    by blast
  from a b show ?thesis by simp
qed

subsection \<open>Tickers listed under the categories\<close>

lemma ticker_rows_Cons:
  "ticker_rows (a # rows) =
     (case trim_trailing_empty_values a of
        [] \<Rightarrow> ticker_rows rows
      | c # cs \<Rightarrow> if c = ''Stock ticker'' then ticker_rows rows else (c # cs) # ticker_rows rows)"
  by (simp add: ticker_rows_def split: list.splits)

lemma listed_ticker_names_Cons:
  "listed_ticker_names ((n, c) # d) = ticker_name ` set (tickers c) \<union> listed_ticker_names d"
  by (simp add: listed_ticker_names_def)

lemma listed_dict_set_append:
  "map_of d k = Some c \<Longrightarrow>
   listed_ticker_names (dict_set k (c\<lparr>tickers := tickers c @ [t]\<rparr>) d)
     = insert (ticker_name t) (listed_ticker_names d)"
proof (induction d)
  case Nil
  then show ?case by simp
next
  case (Cons a d)
  obtain k' v' where a: "a = (k', v')" by (cases a)
  show ?case
  proof (cases "k = k'")
    case True
    with Cons.prems a have "v' = c" by simp
    with True a show ?thesis by (auto simp: listed_ticker_names_Cons)
  next
    case False
    with Cons.prems a have "map_of d k = Some c" by simp
    from Cons.IH [OF this] False a show ?thesis by (auto simp: listed_ticker_names_Cons)
  qed
qed

lemma listed_dict_set_subset:
  "listed_ticker_names (dict_set k c d) \<subseteq> ticker_name ` set (tickers c) \<union> listed_ticker_names d"
proof (induction d)
  case Nil
  then show ?case by (simp add: listed_ticker_names_def)
next
  case (Cons a d)
  obtain k' v' where a: "a = (k', v')" by (cases a)
  with Cons.IH show ?case by (auto simp: listed_ticker_names_Cons)
qed

lemma append_ticker_listed:
  "append_ticker t cns cbn = Inr cbn' \<Longrightarrow>
   listed_ticker_names cbn' = listed_ticker_names cbn \<union> (if cns = [] then {} else {ticker_name t})"
proof (induction cns arbitrary: cbn)
  case Nil
  then show ?case by simp
next
  case (Cons cn cns)
  from Cons.prems obtain c where c: "map_of cbn cn = Some c"
    and r: "append_ticker t cns (dict_set cn (c\<lparr>tickers := tickers c @ [t]\<rparr>) cbn) = Inr cbn'"
    by (auto simp: dict_get_def split: option.splits)
  from Cons.IH [OF r] listed_dict_set_append [OF c, of t] show ?case by auto
qed

lemma tickers_loop_listed:
  "tickers_loop rows cbn tbn = Inr (cbn', tbn') \<Longrightarrow>
   listed_ticker_names cbn' = listed_ticker_names cbn \<union> set (declared_ticker_names rows)"
proof (induction rows arbitrary: cbn tbn)
  case Nil
  then show ?case by (simp add: declared_ticker_names_def ticker_rows_def)
next
  case (Cons a rows)
  show ?case
  proof (cases "trim_trailing_empty_values a")
    case Nil
    with Cons.prems have "tickers_loop rows cbn tbn = Inr (cbn', tbn')" by simp
    from Cons.IH [OF this] Nil show ?thesis
      by (simp add: declared_ticker_names_def ticker_rows_Cons)
  next
    case (Cons c cs)
    show ?thesis
    proof (cases "c = ''Stock ticker''")
      case True
      with Cons Cons.prems have "tickers_loop rows cbn tbn = Inr (cbn', tbn')" by simp
      from Cons.IH [OF this] Cons True show ?thesis
        by (simp add: declared_ticker_names_def ticker_rows_Cons)
    next
      case False
      with Cons Cons.prems obtain cbn1 where
        a: "append_ticker (Ticker_init c cs) cs cbn = Inr cbn1"
        and l: "tickers_loop rows cbn1 (dict_set c (Ticker_init c cs) tbn) = Inr (cbn', tbn')"
        by (auto simp: Let_def split: sum.splits)
      from Cons.IH [OF l] append_ticker_listed [OF a] Cons False show ?thesis
        by (auto simp: declared_ticker_names_def ticker_rows_Cons Ticker_init_def)
    qed
  qed
qed

lemma Category_init_fields:
  "Category_init pf n a = Inr c \<Longrightarrow> category_name c = n \<and> tickers c = []"
  by (auto simp: Category_init_def split: sum.splits if_splits)

lemma set_dict_set_subset: "set (dict_set k v d) \<subseteq> insert (k, v) (set d)"
  by (induction k v d rule: dict_set.induct) auto

lemma keyed_dict_set:
  "keyed_by_name cbn \<Longrightarrow> category_name c = n \<Longrightarrow> keyed_by_name (dict_set n c cbn)"
  unfolding keyed_by_name_def
  using set_dict_set_subset [of n c cbn] distinct_dict_set [of cbn n c] by auto

lemma categories_loop_inv:
  "categories_loop pf rows cbn = Inr (cbn', rest) \<Longrightarrow>
   keyed_by_name cbn \<Longrightarrow> listed_ticker_names cbn = {} \<Longrightarrow>
   keyed_by_name cbn' \<and> listed_ticker_names cbn' = {}"
proof (induction rows arbitrary: cbn)
  case Nil
  then show ?case by simp
next
  case (Cons a rows)
  show ?case
  proof (cases "trim_trailing_empty_values a")
    case Nil
    with Cons.prems Cons.IH show ?thesis by simp
  next
    case (Cons c cs)
    show ?thesis
    proof (cases "c = ''Category''")
      case True
      with Cons Cons.prems Cons.IH show ?thesis by simp
    next
      case nc: False
      show ?thesis
      proof (cases "c = ''Stock ticker''")
        case True
        with nc Cons Cons.prems show ?thesis by simp
      next
        case False
        with nc Cons Cons.prems(1) obtain al cat where
          i: "index (c # cs) 1 = Inr al" and
          ci: "Category_init pf c al = Inr cat" and
          l: "categories_loop pf rows (dict_set c cat cbn) = Inr (cbn', rest)"
          by (auto simp: Let_def split: sum.splits)
        from Category_init_fields [OF ci] have f: "category_name cat = c" "tickers cat = []" by simp_all
        from keyed_dict_set [OF Cons.prems(2) f(1)] have k: "keyed_by_name (dict_set c cat cbn)" .
        from listed_dict_set_subset [of c cat cbn] f(2) Cons.prems(3)
        have e: "listed_ticker_names (dict_set c cat cbn) = {}" by auto
        from Cons.IH [OF l k e] show ?thesis .
      qed
    qed
  qed
qed

lemma append_ticker_keyed:
  "append_ticker t cns cbn = Inr cbn' \<Longrightarrow> keyed_by_name cbn \<Longrightarrow> keyed_by_name cbn'"
proof (induction cns arbitrary: cbn)
  case Nil
  then show ?case by simp
next
  case (Cons cn cns)
  from Cons.prems(1) obtain c where c: "map_of cbn cn = Some c"
    and r: "append_ticker t cns (dict_set cn (c\<lparr>tickers := tickers c @ [t]\<rparr>) cbn) = Inr cbn'"
    by (auto simp: dict_get_def split: option.splits)
  from c have "(cn, c) \<in> set cbn" by (rule map_of_SomeD)
  with Cons.prems(2) have "category_name (c\<lparr>tickers := tickers c @ [t]\<rparr>) = cn"
    by (auto simp: keyed_by_name_def)
  from keyed_dict_set [OF Cons.prems(2) this] Cons.IH [OF r] show ?case by simp
qed

lemma tickers_loop_keyed:
  "tickers_loop rows cbn tbn = Inr (cbn', tbn') \<Longrightarrow> keyed_by_name cbn \<Longrightarrow> keyed_by_name cbn'"
proof (induction rows arbitrary: cbn tbn)
  case Nil
  then show ?case by simp
next
  case (Cons a rows)
  show ?case
  proof (cases "trim_trailing_empty_values a")
    case Nil
    with Cons.prems Cons.IH show ?thesis by simp
  next
    case (Cons c cs)
    show ?thesis
    proof (cases "c = ''Stock ticker''")
      case True
      with Cons Cons.prems Cons.IH show ?thesis by simp
    next
      case False
      with Cons Cons.prems(1) obtain cbn1 where
        a: "append_ticker (Ticker_init c cs) cs cbn = Inr cbn1"
        and l: "tickers_loop rows cbn1 (dict_set c (Ticker_init c cs) tbn) = Inr (cbn', tbn')"
        by (auto simp: Let_def split: sum.splits)
      from Cons.IH [OF l append_ticker_keyed [OF a Cons.prems(2)]] show ?thesis .
    qed
  qed
qed

lemma tickers_loop_tbn_subset:
  "tickers_loop rows cbn tbn = Inr (cbn', tbn') \<Longrightarrow>
   set tbn' \<subseteq> set tbn \<union> (\<lambda>row. (hd row, Ticker_init (hd row) (tl row))) ` set (ticker_rows rows)"
proof (induction rows arbitrary: cbn tbn)
  case Nil
  then show ?case by simp
next
  case (Cons a rows)
  show ?case
  proof (cases "trim_trailing_empty_values a")
    case Nil
    with Cons.prems have "tickers_loop rows cbn tbn = Inr (cbn', tbn')" by simp
    from Cons.IH [OF this] Nil show ?thesis by (simp add: ticker_rows_Cons)
  next
    case (Cons c cs)
    show ?thesis
    proof (cases "c = ''Stock ticker''")
      case True
      with Cons Cons.prems have "tickers_loop rows cbn tbn = Inr (cbn', tbn')" by simp
      from Cons.IH [OF this] Cons True show ?thesis by (simp add: ticker_rows_Cons)
    next
      case False
      with Cons Cons.prems(1) obtain cbn1 where
        l: "tickers_loop rows cbn1 (dict_set c (Ticker_init c cs) tbn) = Inr (cbn', tbn')"
        by (auto simp: Let_def split: sum.splits)
      from Cons.IH [OF l] set_dict_set_subset [of c "Ticker_init c cs" tbn] Cons False
      show ?thesis by (auto simp: ticker_rows_Cons)
    qed
  qed
qed

lemma set_dict_set_fresh: "k \<notin> fst ` set d \<Longrightarrow> set (dict_set k v d) = insert (k, v) (set d)"
  by (induction k v d rule: dict_set.induct) auto

lemma tickers_loop_tbn_exact:
  "tickers_loop rows cbn tbn = Inr (cbn', tbn') \<Longrightarrow>
   distinct (map hd (ticker_rows rows)) \<Longrightarrow>
   hd ` set (ticker_rows rows) \<inter> fst ` set tbn = {} \<Longrightarrow>
   set tbn' = set tbn \<union> (\<lambda>row. (hd row, Ticker_init (hd row) (tl row))) ` set (ticker_rows rows)"
proof (induction rows arbitrary: cbn tbn)
  case Nil
  then show ?case by (simp add: ticker_rows_def)
next
  case (Cons a rows)
  show ?case
  proof (cases "trim_trailing_empty_values a")
    case Nil
    with Cons.prems have "tickers_loop rows cbn tbn = Inr (cbn', tbn')"
      "distinct (map hd (ticker_rows rows))" "hd ` set (ticker_rows rows) \<inter> fst ` set tbn = {}"
      by (simp_all add: ticker_rows_Cons)
    from Cons.IH [OF this] Nil show ?thesis by (simp add: ticker_rows_Cons)
  next
    case (Cons c cs)
    show ?thesis
    proof (cases "c = ''Stock ticker''")
      case True
      with Cons Cons.prems have "tickers_loop rows cbn tbn = Inr (cbn', tbn')"
        "distinct (map hd (ticker_rows rows))" "hd ` set (ticker_rows rows) \<inter> fst ` set tbn = {}"
        by (simp_all add: ticker_rows_Cons)
      from Cons.IH [OF this] Cons True show ?thesis by (simp add: ticker_rows_Cons)
    next
      case False
      with Cons Cons.prems(1) obtain cbn1 where
        l: "tickers_loop rows cbn1 (dict_set c (Ticker_init c cs) tbn) = Inr (cbn', tbn')"
        by (auto simp: Let_def split: sum.splits)
      from Cons False Cons.prems(2,3) have
        d: "distinct (map hd (ticker_rows rows))" and
        nr: "c \<notin> hd ` set (ticker_rows rows)" and
        fresh: "c \<notin> fst ` set tbn" and
        disj: "hd ` set (ticker_rows rows) \<inter> fst ` set tbn = {}"
        by (auto simp: ticker_rows_Cons)
      from nr disj have
        "hd ` set (ticker_rows rows) \<inter> fst ` set (dict_set c (Ticker_init c cs) tbn) = {}"
        by (auto simp: keys_dict_set)
      from Cons.IH [OF l d this] set_dict_set_fresh [OF fresh, of "Ticker_init c cs"] Cons False
      show ?thesis by (auto simp: ticker_rows_Cons)
    qed
  qed
qed

lemma ticker_names_in_categories_parsed:
  assumes "load_info_from_csv pf rows = Inr (m, cbn, tbn)"
      and "keyed_by_name cbn"
      and "set cs \<subseteq> snd ` set cbn"
  shows "ticker_names_in_categories pf rows cs
           = Inr (concat (map (\<lambda>c. map ticker_name (tickers c)) cs))"
  using assms(3)
proof (induction cs)
  case Nil
  then show ?case by simp
next
  case (Cons c cs)
  from Cons.prems obtain n where "(n, c) \<in> set cbn" by auto
  with assms(2) have "category_name c = n" and "map_of cbn n = Some c"
    by (auto simp: keyed_by_name_def)
  then have "get_tickers_in_category pf rows (category_name c) = Inr (tickers c)"
    using assms(1) by (simp add: get_tickers_in_category_def dict_get_def)
  with Cons show ?case by simp
qed

lemma listed_ticker_names_concat:
  "set (concat (map (\<lambda>c. map ticker_name (tickers c)) (map snd cbn))) = listed_ticker_names cbn"
  by (auto simp: listed_ticker_names_def)

text \<open>
  C9, as amended. On a configuration that parsed, the names of the tickers that
  \<^verbatim>\<open>get_tickers_in_category\<close> returns over all the categories are, as a set, the names
  that the rows of the ticker section declare with at least one category. The names of the
  parsed tickers whose category list is not empty are among them, and they are all of them
  when no two rows of the ticker section declare the same name.
\<close>

theorem round_trip_ticker_names:
  assumes "settings_loop pyfloat rows None = Inr (m0, reader1)"
      and "categories_loop pyfloat reader1 [] = Inr (cbn0, reader2)"
      and "load_info_from_csv pyfloat rows = Inr (minimum_cash_amount, cbn, tbn)"
  shows "\<exists>names. ticker_names_in_all_categories pyfloat rows = Inr names
           \<and> set names = set (declared_ticker_names reader2)
           \<and> set (tickers_with_categories tbn) \<subseteq> set names
           \<and> (distinct (map hd (ticker_rows reader2))
                \<longrightarrow> set names = set (tickers_with_categories tbn))"
proof -
  from assms have t: "tickers_loop reader2 cbn0 [] = Inr (cbn, tbn)"
    by (auto simp: load_info_from_csv_def load_sections_def split: sum.splits prod.splits option.splits)
  have k0: "keyed_by_name ([] :: categories_by_name)" by (simp add: keyed_by_name_def)
  have e0: "listed_ticker_names [] = {}" by (simp add: listed_ticker_names_def)
  from categories_loop_inv [OF assms(2) k0 e0]
  have k1: "keyed_by_name cbn0" and e1: "listed_ticker_names cbn0 = {}" by simp_all
  from tickers_loop_keyed [OF t k1] have k: "keyed_by_name cbn" .
  from tickers_loop_listed [OF t] e1
  have listed: "listed_ticker_names cbn = set (declared_ticker_names reader2)" by simp
  let ?names = "concat (map (\<lambda>c. map ticker_name (tickers c)) (map snd cbn))"
  from assms(3) have "get_categories pyfloat rows = Inr (map snd cbn)"
    by (simp add: get_categories_def)
  moreover from ticker_names_in_categories_parsed [OF assms(3) k, of "map snd cbn"]
  have "ticker_names_in_categories pyfloat rows (map snd cbn) = Inr ?names" by simp
  ultimately have r: "ticker_names_in_all_categories pyfloat rows = Inr ?names"
    by (simp add: ticker_names_in_all_categories_def)
  have n: "set ?names = set (declared_ticker_names reader2)"
    using listed by (simp only: listed_ticker_names_concat)
  from tickers_loop_tbn_subset [OF t]
  have sub: "set (tickers_with_categories tbn) \<subseteq> set (declared_ticker_names reader2)"
    by (auto simp: tickers_with_categories_def declared_ticker_names_def Ticker_init_def)
  have eq: "set (declared_ticker_names reader2) = set (tickers_with_categories tbn)"
    if d: "distinct (map hd (ticker_rows reader2))"
  proof -
    from tickers_loop_tbn_exact [OF t d]
    have "set tbn = (\<lambda>row. (hd row, Ticker_init (hd row) (tl row))) ` set (ticker_rows reader2)"
      by simp
    then have v: "snd ` set tbn = (\<lambda>row. Ticker_init (hd row) (tl row)) ` set (ticker_rows reader2)"
      by (simp add: image_image)
    have "set (tickers_with_categories tbn)
            = ticker_name ` {t \<in> snd ` set tbn. categories t \<noteq> []}"
      by (auto simp: tickers_with_categories_def)
    also have "\<dots> = ticker_name `
         {t \<in> (\<lambda>row. Ticker_init (hd row) (tl row)) ` set (ticker_rows reader2). categories t \<noteq> []}"
      by (simp only: v)
    also have "\<dots> = hd ` {row \<in> set (ticker_rows reader2). tl row \<noteq> []}"
      by (force simp: Ticker_init_def)
    also have "\<dots> = set (declared_ticker_names reader2)"
      by (auto simp: declared_ticker_names_def)
    finally show ?thesis by simp
  qed
  from r n sub eq show ?thesis by auto
qed

theorem round_trip_ticker_names_witness:
  "ticker_names_in_all_categories float_decimal
     [[''Reserved cash amount'', ''1000''], [''Category'', ''Allocation''], [''Tech'', ''50%''],
      [''Cash'', ''10%''], [''Stock ticker'', ''Categories''], [''AAPL'', ''Tech''],
      [''Cash'', ''Cash''], [''MSFT'']]
   = Inr [''AAPL'', ''Cash'']
   \<and> set [''AAPL'', ''Cash''] =
       set (tickers_with_categories
             [(''AAPL'', \<lparr>ticker_name = ''AAPL'', categories = [''Tech'']\<rparr>),
              (''Cash'', \<lparr>ticker_name = ''Cash'', categories = [''Cash'']\<rparr>),
              (''MSFT'', \<lparr>ticker_name = ''MSFT'', categories = []\<rparr>)])"
proof -
  have a: "settings_loop float_decimal
     [[''Reserved cash amount'', ''1000''], [''Category'', ''Allocation''], [''Tech'', ''50%''],
      [''Cash'', ''10%''], [''Stock ticker'', ''Categories''], [''AAPL'', ''Tech''],
      [''Cash'', ''Cash''], [''MSFT'']] None
    = Inr (Some 1000,
           [[''Tech'', ''50%''], [''Cash'', ''10%''], [''Stock ticker'', ''Categories''],
            [''AAPL'', ''Tech''], [''Cash'', ''Cash''], [''MSFT'']])"
    by code_simp
  have b: "categories_loop float_decimal
           [[''Tech'', ''50%''], [''Cash'', ''10%''], [''Stock ticker'', ''Categories''],
            [''AAPL'', ''Tech''], [''Cash'', ''Cash''], [''MSFT'']] []
    = Inr ([(''Tech'', \<lparr>category_name = ''Tech'', tickers = [], allocation_percentage = 50\<rparr>),
            (''Cash'', \<lparr>category_name = ''Cash'', tickers = [], allocation_percentage = 10\<rparr>)],
           [[''AAPL'', ''Tech''], [''Cash'', ''Cash''], [''MSFT'']])"
    by code_simp
  have c: "load_info_from_csv float_decimal
     [[''Reserved cash amount'', ''1000''], [''Category'', ''Allocation''], [''Tech'', ''50%''],
      [''Cash'', ''10%''], [''Stock ticker'', ''Categories''], [''AAPL'', ''Tech''],
      [''Cash'', ''Cash''], [''MSFT'']]
    = Inr (1000,
           [(''Tech'', \<lparr>category_name = ''Tech'',
                        tickers = [\<lparr>ticker_name = ''AAPL'', categories = [''Tech'']\<rparr>],
                        allocation_percentage = 50\<rparr>),
            (''Cash'', \<lparr>category_name = ''Cash'',
                        tickers = [\<lparr>ticker_name = ''Cash'', categories = [''Cash'']\<rparr>],
                        allocation_percentage = 10\<rparr>)],
           [(''AAPL'', \<lparr>ticker_name = ''AAPL'', categories = [''Tech'']\<rparr>),
            (''Cash'', \<lparr>ticker_name = ''Cash'', categories = [''Cash'']\<rparr>),
            (''MSFT'', \<lparr>ticker_name = ''MSFT'', categories = []\<rparr>)])"
    by code_simp
  have d: "distinct (map hd (ticker_rows [[''AAPL'', ''Tech''], [''Cash'', ''Cash''], [''MSFT'']]))"
    by code_simp
  have r: "ticker_names_in_all_categories float_decimal
     [[''Reserved cash amount'', ''1000''], [''Category'', ''Allocation''], [''Tech'', ''50%''],
      [''Cash'', ''10%''], [''Stock ticker'', ''Categories''], [''AAPL'', ''Tech''],
      [''Cash'', ''Cash''], [''MSFT'']]
   = Inr [''AAPL'', ''Cash'']"
    by code_simp
  from round_trip_ticker_names [OF a b c] d r show ?thesis by auto
qed

theorem duplicate_ticker_row_counterexample:
  "load_info_from_csv float_decimal
     [[''Reserved cash amount'', ''1000''], [''Category'', ''Allocation''], [''Tech'', ''50%''],
      [''Stock ticker'', ''Categories''], [''AAPL'', ''Tech''], [''AAPL'']]
    = Inr (1000,
           [(''Tech'', \<lparr>category_name = ''Tech'',
                        tickers = [\<lparr>ticker_name = ''AAPL'', categories = [''Tech'']\<rparr>],
                        allocation_percentage = 50\<rparr>)],
           [(''AAPL'', \<lparr>ticker_name = ''AAPL'', categories = []\<rparr>)])
   \<and> ticker_names_in_all_categories float_decimal
     [[''Reserved cash amount'', ''1000''], [''Category'', ''Allocation''], [''Tech'', ''50%''],
      [''Stock ticker'', ''Categories''], [''AAPL'', ''Tech''], [''AAPL'']]
    = Inr [''AAPL'']
   \<and> tickers_with_categories [(''AAPL'', \<lparr>ticker_name = ''AAPL'', categories = []\<rparr>)] = []"
  by code_simp

subsection \<open>Every listed ticker declares its category\<close>

lemma append_ticker_declared:
  "append_ticker t cns cbn = Inr cbn' \<Longrightarrow> set cns \<subseteq> set (categories t) \<Longrightarrow>
   listed_under_declared cbn \<Longrightarrow> listed_under_declared cbn'"
proof (induction cns arbitrary: cbn)
  case Nil
  then show ?case by simp
next
  case (Cons cn cns)
  from Cons.prems(1) obtain c where c: "map_of cbn cn = Some c"
    and r: "append_ticker t cns (dict_set cn (c\<lparr>tickers := tickers c @ [t]\<rparr>) cbn) = Inr cbn'"
    by (auto simp: dict_get_def split: option.splits)
  from c have in_cbn: "(cn, c) \<in> set cbn" by (rule map_of_SomeD)
  from Cons.prems(2) have cn: "cn \<in> set (categories t)" by simp
  have "listed_under_declared (dict_set cn (c\<lparr>tickers := tickers c @ [t]\<rparr>) cbn)"
    unfolding listed_under_declared_def
  proof (intro ballI, clarify)
    fix n d u
    assume m: "(n, d) \<in> set (dict_set cn (c\<lparr>tickers := tickers c @ [t]\<rparr>) cbn)"
      and u: "u \<in> set (tickers d)"
    from m set_dict_set_subset [of cn "c\<lparr>tickers := tickers c @ [t]\<rparr>" cbn]
    consider "n = cn" "d = c\<lparr>tickers := tickers c @ [t]\<rparr>" | "(n, d) \<in> set cbn"
      by auto
    then show "n \<in> set (categories u)"
    proof cases
      case 1
      with u have "u \<in> set (tickers c) \<or> u = t" by auto
      then show ?thesis
      proof
        assume "u \<in> set (tickers c)"
        with in_cbn Cons.prems(3) 1 show ?thesis
          unfolding listed_under_declared_def by blast
      next
        assume "u = t"
        with cn 1 show ?thesis by simp
      qed
    next
      case 2
      with u Cons.prems(3) show ?thesis
        unfolding listed_under_declared_def by blast
    qed
  qed
  with Cons.IH [OF r] Cons.prems(2) show ?case by simp
qed

lemma tickers_loop_declared:
  "tickers_loop rows cbn tbn = Inr (cbn', tbn') \<Longrightarrow>
   listed_under_declared cbn \<Longrightarrow> listed_under_declared cbn'"
proof (induction rows arbitrary: cbn tbn)
  case Nil
  then show ?case by simp
next
  case (Cons a rows)
  show ?case
  proof (cases "trim_trailing_empty_values a")
    case Nil
    with Cons.prems Cons.IH show ?thesis by simp
  next
    case (Cons c cs)
    show ?thesis
    proof (cases "c = ''Stock ticker''")
      case True
      with Cons Cons.prems Cons.IH show ?thesis by simp
    next
      case False
      with Cons Cons.prems(1) obtain cbn1 where
        a: "append_ticker (Ticker_init c cs) cs cbn = Inr cbn1"
        and l: "tickers_loop rows cbn1 (dict_set c (Ticker_init c cs) tbn) = Inr (cbn', tbn')"
        by (auto simp: Let_def split: sum.splits)
      have "set cs \<subseteq> set (categories (Ticker_init c cs))" by (simp add: Ticker_init_def)
      from Cons.IH [OF l append_ticker_declared [OF a this Cons.prems(2)]] show ?thesis .
    qed
  qed
qed

lemma parsed_listed_under_declared:
  assumes "load_info_from_csv pf rows = Inr (m, cbn, tbn)"
  shows "listed_under_declared cbn"
proof -
  from assms obtain m0 r1 cbn0 r2 where
    "categories_loop pf r1 [] = Inr (cbn0, r2)" and t: "tickers_loop r2 cbn0 [] = Inr (cbn, tbn)"
    by (auto simp: load_info_from_csv_def load_sections_def
             split: sum.splits prod.splits option.splits)
  from categories_loop_inv [OF this(1)] have "listed_ticker_names cbn0 = {}"
    by (simp add: keyed_by_name_def listed_ticker_names_def)
  then have "listed_under_declared cbn0"
    by (auto simp: listed_under_declared_def listed_ticker_names_def)
  with t show ?thesis by (rule tickers_loop_declared)
qed

lemma parsed_ticker_has_category:
  assumes "load_info_from_csv pf rows = Inr (m, cbn, tbn)"
      and "get_tickers_in_category pf rows name = Inr stocks"
      and "t \<in> set stocks"
  shows "categories t \<noteq> []"
proof -
  from assms(1,2) obtain c where c: "map_of cbn name = Some c" and s: "stocks = tickers c"
    by (auto simp: get_tickers_in_category_def dict_get_def split: option.splits)
  from c have "(name, c) \<in> set cbn" by (rule map_of_SomeD)
  with parsed_listed_under_declared [OF assms(1)] assms(3) s
  have "name \<in> set (categories t)" by (auto simp: listed_under_declared_def)
  then show ?thesis by auto
qed

subsection \<open>The weight-splitting rule\<close>

lemma listed_by_rows_Cons:
  "listed_by_rows (a # rows) n =
     (case trim_trailing_empty_values a of
        [] \<Rightarrow> listed_by_rows rows n
      | c # cs \<Rightarrow>
          if c = ''Stock ticker'' then listed_by_rows rows n
          else replicate (count_list cs n) (Ticker_init c cs) @ listed_by_rows rows n)"
  by (simp add: listed_by_rows_def ticker_rows_Cons split: list.splits)

lemma append_ticker_tickers:
  "append_ticker t cns cbn = Inr cbn' \<Longrightarrow> map_of cbn n = Some c \<Longrightarrow>
   \<exists>c'. map_of cbn' n = Some c' \<and> tickers c' = tickers c @ replicate (count_list cns n) t"
proof (induction cns arbitrary: cbn c)
  case Nil
  then show ?case by simp
next
  case (Cons cn cns)
  from Cons.prems(1) obtain d where d: "map_of cbn cn = Some d"
    and r: "append_ticker t cns (dict_set cn (d\<lparr>tickers := tickers d @ [t]\<rparr>) cbn) = Inr cbn'"
    by (auto simp: dict_get_def split: option.splits)
  show ?case
  proof (cases "cn = n")
    case True
    with d Cons.prems(2) have dc: "d = c" by simp
    have "map_of (dict_set cn (d\<lparr>tickers := tickers d @ [t]\<rparr>) cbn) n
            = Some (c\<lparr>tickers := tickers c @ [t]\<rparr>)"
      using True dc by (simp add: map_of_dict_set)
    from Cons.IH [OF r this] obtain c' where
      "map_of cbn' n = Some c'"
      "tickers c' = tickers (c\<lparr>tickers := tickers c @ [t]\<rparr>) @ replicate (count_list cns n) t"
      by blast
    with True show ?thesis by simp
  next
    case False
    with Cons.prems(2)
    have "map_of (dict_set cn (d\<lparr>tickers := tickers d @ [t]\<rparr>) cbn) n = Some c"
      by (simp add: map_of_dict_set)
    from Cons.IH [OF r this] False show ?thesis by simp
  qed
qed

lemma tickers_loop_tickers:
  "tickers_loop rows cbn tbn = Inr (cbn', tbn') \<Longrightarrow> map_of cbn n = Some c \<Longrightarrow>
   \<exists>c'. map_of cbn' n = Some c' \<and> tickers c' = tickers c @ listed_by_rows rows n"
proof (induction rows arbitrary: cbn tbn c)
  case Nil
  then show ?case by (simp add: listed_by_rows_def ticker_rows_def)
next
  case (Cons a rows)
  show ?case
  proof (cases "trim_trailing_empty_values a")
    case Nil
    with Cons.prems have "tickers_loop rows cbn tbn = Inr (cbn', tbn')" by simp
    from Cons.IH [OF this Cons.prems(2)] Nil show ?thesis by (simp add: listed_by_rows_Cons)
  next
    case (Cons x xs)
    show ?thesis
    proof (cases "x = ''Stock ticker''")
      case True
      with Cons Cons.prems have "tickers_loop rows cbn tbn = Inr (cbn', tbn')" by simp
      from Cons.IH [OF this Cons.prems(2)] Cons True show ?thesis
        by (simp add: listed_by_rows_Cons)
    next
      case False
      with Cons Cons.prems(1) obtain cbn1 where
        a: "append_ticker (Ticker_init x xs) xs cbn = Inr cbn1"
        and l: "tickers_loop rows cbn1 (dict_set x (Ticker_init x xs) tbn) = Inr (cbn', tbn')"
        by (auto simp: Let_def split: sum.splits)
      from append_ticker_tickers [OF a Cons.prems(2)] obtain c1 where
        c1: "map_of cbn1 n = Some c1"
        "tickers c1 = tickers c @ replicate (count_list xs n) (Ticker_init x xs)"
        by blast
      from Cons.IH [OF l c1(1)] c1(2) Cons False show ?thesis
        by (simp add: listed_by_rows_Cons)
    qed
  qed
qed

lemma tickers_loop_named:
  "tickers_loop rows cbn tbn = Inr (cbn', tbn') \<Longrightarrow> row \<in> set (ticker_rows rows) \<Longrightarrow>
   cn \<in> set (tl row) \<Longrightarrow> map_of cbn cn \<noteq> None"
proof (induction rows arbitrary: cbn tbn)
  case Nil
  then show ?case by (simp add: ticker_rows_def)
next
  case (Cons a rows)
  show ?case
  proof (cases "trim_trailing_empty_values a")
    case Nil
    with Cons.prems have "tickers_loop rows cbn tbn = Inr (cbn', tbn')"
      "row \<in> set (ticker_rows rows)" by (simp_all add: ticker_rows_Cons)
    from Cons.IH [OF this Cons.prems(3)] show ?thesis .
  next
    case (Cons x xs)
    show ?thesis
    proof (cases "x = ''Stock ticker''")
      case True
      with Cons Cons.prems have "tickers_loop rows cbn tbn = Inr (cbn', tbn')"
        "row \<in> set (ticker_rows rows)" by (simp_all add: ticker_rows_Cons)
      from Cons.IH [OF this Cons.prems(3)] show ?thesis .
    next
      case False
      with Cons Cons.prems(1) obtain cbn1 where
        a: "append_ticker (Ticker_init x xs) xs cbn = Inr cbn1"
        and l: "tickers_loop rows cbn1 (dict_set x (Ticker_init x xs) tbn) = Inr (cbn', tbn')"
        by (auto simp: Let_def split: sum.splits)
      from Cons False Cons.prems(2) consider "row = x # xs" | "row \<in> set (ticker_rows rows)"
        by (auto simp: ticker_rows_Cons)
      then show ?thesis
      proof cases
        case 1
        with Cons.prems(3) have "cn \<in> set xs" by simp
        with a append_ticker_KeyError [of cn xs cbn "Ticker_init x xs"] show ?thesis by auto
      next
        case 2
        from Cons.IH [OF l 2 Cons.prems(3)] have "map_of cbn1 cn \<noteq> None" .
        then have "cn \<in> fst ` set cbn1" by (simp add: map_of_eq_None_iff)
        with append_ticker_keys [OF a] have "cn \<in> fst ` set cbn"
          by (metis set_map)
        then show ?thesis by (simp add: map_of_eq_None_iff)
      qed
    qed
  qed
qed

lemma parsed_sections:
  assumes "load_info_from_csv pf rows = Inr (m, cbn, tbn)"
  shows "\<exists>m0 r1 cbn0 r2. settings_loop pf rows None = Inr (m0, r1)
           \<and> categories_loop pf r1 [] = Inr (cbn0, r2)
           \<and> tickers_loop r2 cbn0 [] = Inr (cbn, tbn)"
  using assms
  by (auto simp: load_info_from_csv_def load_sections_def
           split: sum.splits prod.splits option.splits)

lemma parsed_keyed_by_name:
  assumes "load_info_from_csv pf rows = Inr (m, cbn, tbn)"
  shows "keyed_by_name cbn"
proof -
  from parsed_sections [OF assms] obtain m0 r1 cbn0 r2 where
    c: "categories_loop pf r1 [] = Inr (cbn0, r2)" and t: "tickers_loop r2 cbn0 [] = Inr (cbn, tbn)"
    by blast
  have "keyed_by_name ([] :: categories_by_name)" by (simp add: keyed_by_name_def)
  with c have "keyed_by_name cbn0"
    using categories_loop_inv [of pf r1 "[]" cbn0 r2] by (simp add: listed_ticker_names_def)
  with t show ?thesis by (rule tickers_loop_keyed)
qed

lemma parsed_tickers_listed_by_rows:
  assumes c: "categories_loop pf r1 [] = Inr (cbn0, r2)"
      and t: "tickers_loop r2 cbn0 [] = Inr (cbn, tbn)"
      and nc: "(n, c) \<in> set cbn"
  shows "tickers c = listed_by_rows r2 n"
proof -
  have k0: "keyed_by_name ([] :: categories_by_name)" by (simp add: keyed_by_name_def)
  have e0: "listed_ticker_names [] = {}" by (simp add: listed_ticker_names_def)
  from categories_loop_inv [OF c k0 e0]
  have k1: "keyed_by_name cbn0" and e1: "listed_ticker_names cbn0 = {}" by simp_all
  from tickers_loop_keyed [OF t k1] have k: "keyed_by_name cbn" .
  with nc have m: "map_of cbn n = Some c" by (auto simp: keyed_by_name_def)
  from nc have "n \<in> set (map fst cbn)" by force
  with tickers_loop_keys [OF t] have "n \<in> fst ` set cbn0" by simp
  then obtain c0 where c0: "(n, c0) \<in> set cbn0" by auto
  with k1 have m0: "map_of cbn0 n = Some c0" by (auto simp: keyed_by_name_def)
  from c0 e1 have "tickers c0 = []" by (auto simp: listed_ticker_names_def)
  with tickers_loop_tickers [OF t m0] m show ?thesis by auto
qed

lemma balance_lines_parsed:
  assumes load: "load_info_from_csv pf rows = Inr (m, cbn, tbn)"
      and e: "equity \<noteq> 0"
      and sub: "set ncs \<subseteq> set cbn"
  shows "\<exists>lines. balance_lines pf rows positions cash equity (map snd ncs) = Inr lines
           \<and> list_all2 (\<lambda>(n, c) line.
                 line_category line = n
               \<and> holdings line = map ticker_name (tickers c)
               \<and> ((\<forall>t \<in> set (tickers c). ticker_name t \<noteq> ''Cash'') \<longrightarrow>
                    actual line
                      = 100 * sum_list (map (contribution positions) (tickers c)) / equity))
               ncs lines"
  using sub
proof (induction ncs)
  case Nil
  then show ?case by simp
next
  case (Cons p ncs)
  obtain n c where p: "p = (n, c)" by (cases p)
  with Cons.prems have nc: "(n, c) \<in> set cbn" and rest: "set ncs \<subseteq> set cbn" by auto
  from parsed_keyed_by_name [OF load] nc
  have name: "category_name c = n" and look: "map_of cbn n = Some c"
    by (auto simp: keyed_by_name_def)
  from load look have g: "get_tickers_in_category pf rows (category_name c) = Inr (tickers c)"
    by (simp add: get_tickers_in_category_def dict_get_def name)
  from load have mc: "get_minimum_cash_amount pf rows = Inr m"
    by (simp add: get_minimum_cash_amount_def)
  from parsed_listed_under_declared [OF load] nc
  have decl: "\<forall>t \<in> set (tickers c). categories t \<noteq> []"
    by (fastforce simp: listed_under_declared_def)
  then have "\<forall>t \<in> set (tickers c).
      ticker_name t \<noteq> ''Cash'' \<and> map_of positions (ticker_name t) \<noteq> None \<longrightarrow> categories t \<noteq> []"
    by simp
  from allocation_total [OF this] obtain a where
    a: "allocation_to_category positions cash m (tickers c) 0 = Inr a" by blast
  have sum: "a = sum_list (map (contribution positions) (tickers c))"
    if "\<forall>t \<in> set (tickers c). ticker_name t \<noteq> ''Cash''"
  proof -
    from decl have "\<forall>t \<in> set (tickers c). map_of positions (ticker_name t) \<noteq> None \<longrightarrow> categories t \<noteq> []"
      by simp
    from allocation_without_cash [OF that this, of cash m 0] a show ?thesis by simp
  qed
  from a e have b: "balance_of_category positions cash equity m c (tickers c)
      = Inr \<lparr>line_category = category_name c, ideal = allocation_percentage c,
             actual = 100 * a / equity, needed = allocation_percentage c - 100 * a / equity,
             holdings = map ticker_name (tickers c)\<rparr>"
    by (simp add: balance_of_category_def actual_allocation_percentage_def)
  from Cons.IH [OF rest] obtain lines where
    l: "balance_lines pf rows positions cash equity (map snd ncs) = Inr lines"
    and all: "list_all2 (\<lambda>(n, c) line.
                 line_category line = n
               \<and> holdings line = map ticker_name (tickers c)
               \<and> ((\<forall>t \<in> set (tickers c). ticker_name t \<noteq> ''Cash'') \<longrightarrow>
                    actual line
                      = 100 * sum_list (map (contribution positions) (tickers c)) / equity))
               ncs lines"
    by blast
  from g mc b l have "balance_lines pf rows positions cash equity (map snd (p # ncs))
      = Inr (\<lparr>line_category = category_name c, ideal = allocation_percentage c,
             actual = 100 * a / equity, needed = allocation_percentage c - 100 * a / equity,
             holdings = map ticker_name (tickers c)\<rparr> # lines)"
    by (simp add: p)
  with all name sum p show ?case by auto
qed

text \<open>
  C2, as amended. On a configuration that parsed and with an equity that is not 0, the
  balance has one line for each category, in the order of the configuration. The ticker
  list of a category is what the ticker declarations list under it: the ticker of each
  declaration that names the category, once for each mention, so that the ticker of a
  declaration is listed under each of the K categories it names. Each of these tickers
  that is not "Cash" adds its \<open>total_value\<close> divided by K when it is held and nothing when it
  is not, without error. For a category whose list has no "Cash", the actual percentage is
  100 times the sum of these contributions, divided by the equity.
\<close>

theorem weight_splitting:
  assumes "settings_loop pyfloat rows None = Inr (m0, reader1)"
      and "categories_loop pyfloat reader1 [] = Inr (cbn0, reader2)"
      and "load_info_from_csv pyfloat rows = Inr (minimum_cash_amount, cbn, tbn)"
      and "equity \<noteq> 0"
  shows "(\<forall>row \<in> set (ticker_rows reader2). \<forall>cn \<in> set (tl row).
            \<exists>c. map_of cbn cn = Some c \<and> Ticker_init (hd row) (tl row) \<in> set (tickers c))
       \<and> (\<exists>lines. portfolio_balance pyfloat rows positions cash_amount equity = Inr lines
           \<and> list_all2 (\<lambda>(n, c) line.
                 line_category line = n
               \<and> tickers c = listed_by_rows reader2 n
               \<and> (\<forall>t \<in> set (tickers c). ticker_name t \<noteq> ''Cash'' \<longrightarrow>
                    (\<forall>a. allocation_to_category positions cash_amount minimum_cash_amount [t] a =
                       (case map_of positions (ticker_name t) of
                          None \<Rightarrow> Inr a
                        | Some position \<Rightarrow>
                            Inr (a + total_value position / real (length (categories t))))))
               \<and> ((\<forall>t \<in> set (tickers c). ticker_name t \<noteq> ''Cash'') \<longrightarrow>
                    actual line
                      = 100 * sum_list (map (contribution positions) (tickers c)) / equity))
               cbn lines)"
proof -
  from assms(1,2,3) have t: "tickers_loop reader2 cbn0 [] = Inr (cbn, tbn)"
    by (auto simp: load_info_from_csv_def load_sections_def split: sum.splits prod.splits option.splits)
  have listed: "tickers c = listed_by_rows reader2 n" if "(n, c) \<in> set cbn" for n c
    using assms(2) t that by (rule parsed_tickers_listed_by_rows)
  have k: "keyed_by_name cbn" using assms(3) by (rule parsed_keyed_by_name)
  have member: "\<exists>c. map_of cbn cn = Some c \<and> Ticker_init (hd row) (tl row) \<in> set (tickers c)"
    if row: "row \<in> set (ticker_rows reader2)" and cn: "cn \<in> set (tl row)" for row cn
  proof -
    from tickers_loop_named [OF t row cn] have "cn \<in> fst ` set cbn0"
      by (simp add: map_of_eq_None_iff)
    with tickers_loop_keys [OF t] have "cn \<in> fst ` set cbn" by (metis set_map)
    then obtain c where c: "(cn, c) \<in> set cbn" by auto
    with k have m: "map_of cbn cn = Some c" by (auto simp: keyed_by_name_def)
    from cn have "count_list (tl row) cn \<noteq> 0" by (simp add: count_list_0_iff)
    then have "0 < count_list (tl row) cn" by simp
    with row have "Ticker_init (hd row) (tl row) \<in> set (listed_by_rows reader2 cn)"
      by (auto simp: listed_by_rows_def)
    with listed [OF c] m show ?thesis by simp
  qed
  have step: "allocation_to_category positions cash_amount minimum_cash_amount [t] a =
                (case map_of positions (ticker_name t) of
                   None \<Rightarrow> Inr a
                 | Some position \<Rightarrow> Inr (a + total_value position / real (length (categories t))))"
    if "(n, c) \<in> set cbn" "t \<in> set (tickers c)" "ticker_name t \<noteq> ''Cash''" for n c t a
  proof -
    from parsed_listed_under_declared [OF assms(3)] that(1,2) have "categories t \<noteq> []"
      by (fastforce simp: listed_under_declared_def)
    with that(3) show ?thesis by (simp add: dict_get_def split: option.splits)
  qed
  from balance_lines_parsed [OF assms(3,4), of cbn positions cash_amount] obtain lines where
    l: "balance_lines pyfloat rows positions cash_amount equity (map snd cbn) = Inr lines"
    and all: "list_all2 (\<lambda>(n, c) line.
                 line_category line = n
               \<and> holdings line = map ticker_name (tickers c)
               \<and> ((\<forall>t \<in> set (tickers c). ticker_name t \<noteq> ''Cash'') \<longrightarrow>
                    actual line
                      = 100 * sum_list (map (contribution positions) (tickers c)) / equity))
               cbn lines"
    by blast
  from assms(3) l have pb: "portfolio_balance pyfloat rows positions cash_amount equity = Inr lines"
    by (simp add: portfolio_balance_def get_categories_def)
  have "list_all2 (\<lambda>(n, c) line.
                 line_category line = n
               \<and> tickers c = listed_by_rows reader2 n
               \<and> (\<forall>t \<in> set (tickers c). ticker_name t \<noteq> ''Cash'' \<longrightarrow>
                    (\<forall>a. allocation_to_category positions cash_amount minimum_cash_amount [t] a =
                       (case map_of positions (ticker_name t) of
                          None \<Rightarrow> Inr a
                        | Some position \<Rightarrow>
                            Inr (a + total_value position / real (length (categories t))))))
               \<and> ((\<forall>t \<in> set (tickers c). ticker_name t \<noteq> ''Cash'') \<longrightarrow>
                    actual line
                      = 100 * sum_list (map (contribution positions) (tickers c)) / equity))
               cbn lines"
    using all
  proof (rule list.rel_mono_strong)
    fix p line
    assume p: "p \<in> set cbn"
      and h: "(case p of (n, c) \<Rightarrow> \<lambda>line.
                 line_category line = n
               \<and> holdings line = map ticker_name (tickers c)
               \<and> ((\<forall>t \<in> set (tickers c). ticker_name t \<noteq> ''Cash'') \<longrightarrow>
                    actual line
                      = 100 * sum_list (map (contribution positions) (tickers c)) / equity)) line"
    obtain n c where nc: "p = (n, c)" by (cases p)
    with p have in_cbn: "(n, c) \<in> set cbn" by simp
    from h nc listed [OF in_cbn] step [OF in_cbn]
    show "(case p of (n, c) \<Rightarrow> \<lambda>line.
                 line_category line = n
               \<and> tickers c = listed_by_rows reader2 n
               \<and> (\<forall>t \<in> set (tickers c). ticker_name t \<noteq> ''Cash'' \<longrightarrow>
                    (\<forall>a. allocation_to_category positions cash_amount minimum_cash_amount [t] a =
                       (case map_of positions (ticker_name t) of
                          None \<Rightarrow> Inr a
                        | Some position \<Rightarrow>
                            Inr (a + total_value position / real (length (categories t))))))
               \<and> ((\<forall>t \<in> set (tickers c). ticker_name t \<noteq> ''Cash'') \<longrightarrow>
                    actual line
                      = 100 * sum_list (map (contribution positions) (tickers c)) / equity)) line"
      by simp
  qed
  with pb member show ?thesis by blast
qed

theorem weight_splitting_witness:
  "portfolio_balance float_decimal
     [[''Reserved cash amount'', ''1000''], [''Category'', ''Allocation''], [''Tech'', ''50%''],
      [''Growth'', ''40%''], [''Stock ticker'', ''Categories''], [''AAPL'', ''Tech'', ''Growth''],
      [''MSFT'', ''Tech'']]
     example_positions 2000 10000
   = Inr [\<lparr>line_category = ''Tech'', ideal = 50, actual = 15 / 2, needed = 85 / 2,
            holdings = [''AAPL'', ''MSFT'']\<rparr>,
          \<lparr>line_category = ''Growth'', ideal = 40, actual = 15 / 2, needed = 65 / 2,
            holdings = [''AAPL'']\<rparr>]"
proof -
  have a: "settings_loop float_decimal
     [[''Reserved cash amount'', ''1000''], [''Category'', ''Allocation''], [''Tech'', ''50%''],
      [''Growth'', ''40%''], [''Stock ticker'', ''Categories''], [''AAPL'', ''Tech'', ''Growth''],
      [''MSFT'', ''Tech'']] None
    = Inr (Some 1000,
           [[''Tech'', ''50%''], [''Growth'', ''40%''], [''Stock ticker'', ''Categories''],
            [''AAPL'', ''Tech'', ''Growth''], [''MSFT'', ''Tech'']])"
    by code_simp
  have b: "categories_loop float_decimal
           [[''Tech'', ''50%''], [''Growth'', ''40%''], [''Stock ticker'', ''Categories''],
            [''AAPL'', ''Tech'', ''Growth''], [''MSFT'', ''Tech'']] []
    = Inr ([(''Tech'', \<lparr>category_name = ''Tech'', tickers = [], allocation_percentage = 50\<rparr>),
            (''Growth'', \<lparr>category_name = ''Growth'', tickers = [], allocation_percentage = 40\<rparr>)],
           [[''AAPL'', ''Tech'', ''Growth''], [''MSFT'', ''Tech'']])"
    by code_simp
  have c: "load_info_from_csv float_decimal
     [[''Reserved cash amount'', ''1000''], [''Category'', ''Allocation''], [''Tech'', ''50%''],
      [''Growth'', ''40%''], [''Stock ticker'', ''Categories''], [''AAPL'', ''Tech'', ''Growth''],
      [''MSFT'', ''Tech'']]
    = Inr (1000,
           [(''Tech'', \<lparr>category_name = ''Tech'',
                        tickers = [\<lparr>ticker_name = ''AAPL'', categories = [''Tech'', ''Growth'']\<rparr>,
                                   \<lparr>ticker_name = ''MSFT'', categories = [''Tech'']\<rparr>],
                        allocation_percentage = 50\<rparr>),
            (''Growth'', \<lparr>category_name = ''Growth'',
                          tickers = [\<lparr>ticker_name = ''AAPL'', categories = [''Tech'', ''Growth'']\<rparr>],
                          allocation_percentage = 40\<rparr>)],
           [(''AAPL'', \<lparr>ticker_name = ''AAPL'', categories = [''Tech'', ''Growth'']\<rparr>),
            (''MSFT'', \<lparr>ticker_name = ''MSFT'', categories = [''Tech'']\<rparr>)])"
    by code_simp
  have d: "(10000 :: real) \<noteq> 0" by simp
  from weight_splitting [OF a b c d, of example_positions 2000]
  obtain lines where
    l: "portfolio_balance float_decimal
     [[''Reserved cash amount'', ''1000''], [''Category'', ''Allocation''], [''Tech'', ''50%''],
      [''Growth'', ''40%''], [''Stock ticker'', ''Categories''], [''AAPL'', ''Tech'', ''Growth''],
      [''MSFT'', ''Tech'']]
     example_positions 2000 10000 = Inr lines"
    by blast
  have "portfolio_balance float_decimal
     [[''Reserved cash amount'', ''1000''], [''Category'', ''Allocation''], [''Tech'', ''50%''],
      [''Growth'', ''40%''], [''Stock ticker'', ''Categories''], [''AAPL'', ''Tech'', ''Growth''],
      [''MSFT'', ''Tech'']]
     example_positions 2000 10000
   = Inr [\<lparr>line_category = ''Tech'', ideal = 50, actual = 15 / 2, needed = 85 / 2,
            holdings = [''AAPL'', ''MSFT'']\<rparr>,
          \<lparr>line_category = ''Growth'', ideal = 40, actual = 15 / 2, needed = 65 / 2,
            holdings = [''AAPL'']\<rparr>]"
    by (simp add: portfolio_balance_def get_categories_def get_tickers_in_category_def
          get_minimum_cash_amount_def c balance_of_category_def actual_allocation_percentage_def
          dict_get_def example_positions_def)
  with l show ?thesis by simp
qed

theorem cash_in_list_counterexample:
  "portfolio_balance float_decimal
     [[''Reserved cash amount'', ''1000''], [''Category'', ''Allocation''], [''Mix'', ''50%''],
      [''Stock ticker'', ''Categories''], [''AAPL'', ''Mix''], [''Cash'', ''Mix'']]
     example_positions 2000 10000
   = Inr [\<lparr>line_category = ''Mix'', ideal = 50, actual = 10, needed = 40,
            holdings = [''AAPL'', ''Cash'']\<rparr>]
   \<and> 100 * sum_list (map (contribution example_positions)
                        [\<lparr>ticker_name = ''AAPL'', categories = [''Mix'']\<rparr>]) / 10000
     = (15 :: real)"
  by code_simp

end
